theory Spec2Isabelle
  imports Main
begin

section \<open>Outbound delivery of the MS Teams middleware\<close>

text \<open>
  A shallow embedding of \<^verbatim>\<open>MsteamsMiddleware.send\<close> and
  \<^verbatim>\<open>MsteamsMiddleware.processTurnError\<close>
  (\<^verbatim>\<open>src/plugins/msteams/MsteamsMiddleware.ts\<close>).

  The method is asynchronous and returns \<^verbatim>\<open>Promise<void>\<close>; its observable behaviour
  is what it logs, which transport operations it invokes and with which arguments, what
  it writes into objects it was handed, and how its promise settles. The model returns all
  four. Calls of \<^verbatim>\<open>logger.debug\<close> take no part in the control flow and are left out of
  the log; every other logger call is one log entry.
\<close>

subsection \<open>Data\<close>

text \<open>A thrown JavaScript error, identified by its message.\<close>

type_synonym js_error = string

text \<open>A channel as \<^verbatim>\<open>{id, name}\<close>: the target of a send, the target of a mention and
  the value returned by the channel lookups.\<close>

record IChannel =
  chan_id :: string
  chan_name :: string

text \<open>
  The method assigns to \<^verbatim>\<open>mention.mentioned.id\<close> and \<^verbatim>\<open>mention.mentioned.name\<close> of
  objects that belong to its caller. These objects live in a store; a mention holds the
  address of its \<^verbatim>\<open>mentioned\<close> object, so that two mentions may share one.
\<close>

type_synonym addr = nat

type_synonym store = "addr \<Rightarrow> IChannel"

record IMention =
  mentioned :: addr

datatype IMessageType = PLAIN_TEXT | MSTEAMS_ADAPTIVE_CARD | OTHER string

text \<open>A message part; \<^verbatim>\<open>message\<close> has type \<^verbatim>\<open>any\<close> (type \<open>'p\<close>), and
  \<^verbatim>\<open>mentions\<close> may be undefined.\<close>

record 'p IMessage =
  msg_type :: IMessageType
  msg_message :: 'p
  msg_mentions :: "IMention list option"

text \<open>\<^verbatim>\<open>contextData.chatToolContext\<close> and \<^verbatim>\<open>contextData.chatToolContext.context\<close> may each be
  null or undefined; \<open>'i\<close> is the live turn of the chat platform.\<close>

record 'i IChatToolContext =
  turnContext :: "'i option"

record 'i IChatContextData =
  chatToolContext :: "'i IChatToolContext option"
  channel :: IChannel

text \<open>
  \<^verbatim>\<open>BotActivityHandler\<close> is not part of the sources at hand. The four members that
  \<^verbatim>\<open>send\<close> uses are parameters: the two channel lookups return null (\<open>None\<close>) when
  nothing is found, \<^verbatim>\<open>getServiceUrl()\<close> is the cached map of service URLs (only its size is
  read), and \<^verbatim>\<open>findServiceUrl\<close> returns a string that \<^verbatim>\<open>send\<close> compares with the empty
  string.
\<close>

record BotActivityHandler =
  findChannelByName :: "string \<Rightarrow> IChannel option"
  findChannelById :: "string \<Rightarrow> IChannel option"
  getServiceUrl :: "(string \<times> string) list"
  findServiceUrl :: "string \<Rightarrow> string"

text \<open>
  What the language and the Bot Framework SDK compute from a message payload: the string a
  template literal makes of it, \<^verbatim>\<open>JSON.stringify\<close> and \<^verbatim>\<open>CardFactory.adaptiveCard\<close>
  (\<open>'a\<close> is the SDK's attachment).
\<close>

record ('p, 'a) platform =
  templateString :: "'p \<Rightarrow> string"
  JSON_stringify :: "'p \<Rightarrow> string"
  adaptiveCard :: "'p \<Rightarrow> 'a"

text \<open>\<^verbatim>\<open>Partial<Activity>\<close>, with the fields this method sets. The entities are the mention
  objects themselves (references), as in the source.\<close>

record 'a Activity =
  act_text :: "string option"
  act_attachments :: "'a list option"
  act_entities :: "IMention list option"

definition MessageFactory_text :: "string \<Rightarrow> 'a Activity" where
  "MessageFactory_text t = \<lparr>act_text = Some t, act_attachments = None, act_entities = None\<rparr>"

definition MessageFactory_attachment :: "'a \<Rightarrow> 'a Activity" where
  "MessageFactory_attachment a =
     \<lparr>act_text = None, act_attachments = Some [a], act_entities = None\<rparr>"

record ConversationAccount =
  ca_isGroup :: bool
  ca_id :: string
  conversationType :: string

text \<open>The result of \<^verbatim>\<open>TurnContext.getConversationReference\<close> keeps what it was derived
  from (the activity of a live turn, or an outgoing activity); \<^verbatim>\<open>send\<close> overwrites two of
  its fields in the proactive path.\<close>

record ('i, 'a) ConversationReference =
  ref_of :: "'i + 'a Activity option"
  ref_conversation :: "ConversationAccount option"
  ref_serviceUrl :: "string option"

definition getConversationReference ::
  "'i + 'a Activity option \<Rightarrow> ('i, 'a) ConversationReference" where
  "getConversationReference src =
     \<lparr>ref_of = src, ref_conversation = None, ref_serviceUrl = None\<rparr>"

record 'a ConversationParameters =
  cp_isGroup :: bool
  channelData_channel :: IChannel
  cp_activity :: "'a Activity option"

text \<open>The transport operations \<^verbatim>\<open>send\<close> invokes. \<open>ContinueConversation r a\<close> stands for
  \<^verbatim>\<open>continueConversation(r, turnContext => turnContext.sendActivity(a))\<close>, where \<open>a\<close> is
  \<open>None\<close> when the variable handed to \<^verbatim>\<open>sendActivity\<close> is null.\<close>

datatype ('i, 'a) transport_call =
    CreateConnectorClient string
  | CreateConversation "'a ConversationParameters"
  | ContinueConversation "('i, 'a) ConversationReference" "'a Activity option"

text \<open>How the platform answers: \<^verbatim>\<open>createConnectorClient\<close> may throw,
  \<^verbatim>\<open>createConversation\<close> is rejected or fulfilled with the id of the new conversation,
  \<^verbatim>\<open>continueConversation\<close> is rejected (\<open>Some e\<close>) or fulfilled.\<close>

record ('i, 'a) transport =
  createConnectorClient :: "string \<Rightarrow> js_error option"
  createConversation :: "'a ConversationParameters \<Rightarrow> js_error + string"
  continueConversation ::
    "('i, 'a) ConversationReference \<Rightarrow> 'a Activity option \<Rightarrow> js_error option"

datatype log_message =
    UnsupportedType IMessageType
  | MessageEmpty
  | SendConversationMessage
  | SendProactiveMessage
  | CachedServiceUrlEmpty
  | TargetChannelInfo "IChannel option"
  | ChannelDoesNotExist IChannel
  | ServiceUrl string
  | ServiceUrlDoesNotExist IChannel
  | UnhandledError js_error
  | ErrorStack js_error

datatype log_entry =
    Log_start string
  | Log_end string
  | Log_error log_message
  | Log_warn log_message
  | Log_info log_message

subsection \<open>String.prototype.trim\<close>

text \<open>Characters are the code units up to U+00FF; the white space and line terminators
  of the language in that range are TAB, LF, VT, FF, CR, SP and NBSP.\<close>

definition isWhiteSpace :: "char \<Rightarrow> bool" where
  "isWhiteSpace c = (of_char c \<in> {9, 10, 11, 12, 13, 32, 160 :: nat})"

definition trim :: "string \<Rightarrow> string" where
  "trim s = rev (dropWhile isWhiteSpace (rev (dropWhile isWhiteSpace s)))"

subsection \<open>Composition: the loop over the messages\<close>

text \<open>The local variables of \<^verbatim>\<open>send\<close> that the loop updates, the store of mention
  objects and the log written so far.\<close>

record 'a locals =
  textMessage :: string
  mentions :: "IMention list"
  attachments :: "'a list"
  objects :: store
  logged :: "log_entry list"

text \<open>The body of \<^verbatim>\<open>for (const mention of message.mentions)\<close> (lines 132 to 151).\<close>

definition resolveMention :: "BotActivityHandler \<Rightarrow> IMention \<Rightarrow> 'a locals \<Rightarrow> 'a locals" where
  "resolveMention bh mention s =
     (let a = mentioned mention;
          m = objects s a;
          s1 = (if trim (chan_id m) = '''' \<and> trim (chan_name m) \<noteq> '''' then
                  (case findChannelByName bh (chan_name m) of
                     None \<Rightarrow> s
                   | Some channelInfo \<Rightarrow>
                       s\<lparr>objects := (objects s)(a := m\<lparr>chan_id := chan_id channelInfo\<rparr>)\<rparr>)
                else
                  (case findChannelById bh (chan_id m) of
                     None \<Rightarrow> s
                   | Some channelInfo \<Rightarrow>
                       s\<lparr>objects := (objects s)(a := m\<lparr>chan_name := chan_name channelInfo\<rparr>)\<rparr>));
          m1 = objects s1 a
      in if chan_id m1 \<noteq> '''' \<and> chan_name m1 \<noteq> ''''
         then s1\<lparr>mentions := mentions s1 @ [mention]\<rparr>
         else s1)"

fun resolveMentions :: "BotActivityHandler \<Rightarrow> IMention list \<Rightarrow> 'a locals \<Rightarrow> 'a locals" where
  "resolveMentions bh [] s = s"
| "resolveMentions bh (mention # rest) s = resolveMentions bh rest (resolveMention bh mention s)"

text \<open>The body of \<^verbatim>\<open>for (const message of messages)\<close> (lines 119 to 155): first the
  part is added to the text or to the attachments (lines 120 to 127), then the mentions of
  the message, if it has any, are resolved.\<close>

definition appendPart :: "('p, 'a) platform \<Rightarrow> 'p IMessage \<Rightarrow> 'a locals \<Rightarrow> 'a locals" where
  "appendPart pf message s =
     (case msg_type message of
        PLAIN_TEXT \<Rightarrow>
          s\<lparr>textMessage :=
              textMessage s @ ''\<newline>'' @ templateString pf (msg_message message)\<rparr>
      | MSTEAMS_ADAPTIVE_CARD \<Rightarrow>
          s\<lparr>attachments := attachments s @ [adaptiveCard pf (msg_message message)]\<rparr>
      | OTHER t \<Rightarrow>
          s\<lparr>logged := logged s @ [Log_error (UnsupportedType (OTHER t))],
            textMessage :=
              textMessage s @ ''\<newline>'' @ JSON_stringify pf (msg_message message)\<rparr>)"

definition processMessage ::
  "('p, 'a) platform \<Rightarrow> BotActivityHandler \<Rightarrow> 'p IMessage \<Rightarrow> 'a locals \<Rightarrow> 'a locals" where
  "processMessage pf bh message s =
     (let s1 = appendPart pf message s
      in case msg_mentions message of
           None \<Rightarrow> s1
         | Some ms \<Rightarrow> resolveMentions bh ms s1)"

fun processMessages ::
  "('p, 'a) platform \<Rightarrow> BotActivityHandler \<Rightarrow> 'p IMessage list \<Rightarrow> 'a locals \<Rightarrow> 'a locals" where
  "processMessages pf bh [] s = s"
| "processMessages pf bh (message # rest) s =
     processMessages pf bh rest (processMessage pf bh message s)"

text \<open>The state of the locals when the loop starts, over the caller's store.\<close>

definition initial :: "store \<Rightarrow> 'a locals" where
  "initial st = \<lparr>textMessage = '''', mentions = [], attachments = [], objects = st, logged = []\<rparr>"

definition compose ::
  "('p, 'a) platform \<Rightarrow> BotActivityHandler \<Rightarrow> 'p IMessage list \<Rightarrow> store \<Rightarrow> 'a locals" where
  "compose pf bh messages st = processMessages pf bh messages (initial st)"

text \<open>The variable \<^verbatim>\<open>activity\<close> (lines 160 to 170); \<open>None\<close> is the empty string that
  marks an empty message.\<close>

definition getActivity :: "string \<Rightarrow> 'a list \<Rightarrow> 'a Activity option" where
  "getActivity text atts =
     (if text \<noteq> '''' \<and> atts = [] then Some (MessageFactory_text text)
      else if text = '''' \<and> atts \<noteq> [] then
        Some \<lparr>act_text = None, act_attachments = Some atts, act_entities = None\<rparr>
      else if text \<noteq> '''' \<and> atts \<noteq> [] then
        Some \<lparr>act_text = Some text, act_attachments = Some atts, act_entities = None\<rparr>
      else None)"

subsection \<open>Delivery\<close>

text \<open>What a block of the method has done: its log entries, its transport calls in order,
  and the rejections of promises that nothing awaits or catches.\<close>

record ('i, 'a) effects =
  eff_log :: "log_entry list"
  eff_calls :: "('i, 'a) transport_call list"
  eff_unhandled :: "js_error list"

text \<open>The conversational branch (lines 177 to 186): the call is awaited, so a rejection
  is thrown in \<^verbatim>\<open>send\<close> (first component \<open>Some e\<close>).\<close>

definition conversation ::
  "('i, 'a) transport \<Rightarrow> 'i \<Rightarrow> 'a Activity \<Rightarrow> js_error option \<times> ('i, 'a) effects" where
  "conversation tr tc activity =
     (let conversationReference = getConversationReference (Inl tc)
      in (continueConversation tr conversationReference (Some activity),
          \<lparr>eff_log = [Log_info SendConversationMessage],
           eff_calls = [ContinueConversation conversationReference (Some activity)],
           eff_unhandled = []\<rparr>))"

text \<open>The two units of the proactive branch: \<^verbatim>\<open>firstActivity\<close> (lines 226 to 233) and
  \<^verbatim>\<open>restActivity\<close> (lines 257 to 266; \<^verbatim>\<open>attachments.shift()\<close> leaves the tail). \<open>None\<close> is
  null.\<close>

definition firstActivity :: "string \<Rightarrow> 'a list \<Rightarrow> IMention list \<Rightarrow> 'a Activity option" where
  "firstActivity text atts ms =
     (if text \<noteq> '''' then Some ((MessageFactory_text text)\<lparr>act_entities := Some ms\<rparr>)
      else (case atts of
              a # _ \<Rightarrow> Some ((MessageFactory_attachment a)\<lparr>act_entities := Some ms\<rparr>)
            | [] \<Rightarrow> None))"

definition restActivity :: "string \<Rightarrow> 'a list \<Rightarrow> IMention list \<Rightarrow> 'a Activity option" where
  "restActivity text atts ms =
     (if text \<noteq> '''' \<and> 0 < length atts then
        Some \<lparr>act_text = None, act_attachments = Some atts, act_entities = Some ms\<rparr>
      else if text = '''' \<and> 1 < length atts then
        Some \<lparr>act_text = None, act_attachments = Some (tl atts), act_entities = Some ms\<rparr>
      else None)"

text \<open>The channel lookup of the proactive branch (lines 198 to 203).\<close>

definition findChannel :: "BotActivityHandler \<Rightarrow> IChannel \<Rightarrow> IChannel option" where
  "findChannel bh c =
     (if chan_id c = '''' \<and> chan_name c \<noteq> '''' then findChannelByName bh (chan_name c)
      else findChannelById bh (chan_id c))"

text \<open>
  The proactive branch, in two parts: the transport calls (\<open>createAndContinue\<close>, lines 218
  to 280) and, before them, the three checks that end the method with \<^verbatim>\<open>return\<close>, which
  is no exception (\<open>proactive\<close>, lines 187 to 216). \<^verbatim>\<open>createConversation\<close> is awaited; the last
  \<^verbatim>\<open>continueConversation\<close> is called without \<^verbatim>\<open>await\<close> and with no handler attached to
  the promise it returns, so its rejection does not reach the \<^verbatim>\<open>catch\<close> of \<^verbatim>\<open>send\<close>: it
  is the third component of the result.
\<close>

definition createAndContinue ::
  "('i, 'a) transport \<Rightarrow> IChannel \<Rightarrow> string \<Rightarrow> string \<Rightarrow> 'a list \<Rightarrow> IMention list
     \<Rightarrow> js_error option \<times> ('i, 'a) transport_call list \<times> js_error list" where
  "createAndContinue tr channelInfo serviceUrl text atts ms =
     (case createConnectorClient tr serviceUrl of
        Some e \<Rightarrow> (Some e, [CreateConnectorClient serviceUrl], [])
      | None \<Rightarrow>
          (let first = firstActivity text atts ms;
               conversationParameters =
                 \<lparr>cp_isGroup = True, channelData_channel = channelInfo, cp_activity = first\<rparr>
           in (case createConversation tr conversationParameters of
                 Inl e \<Rightarrow>
                   (Some e,
                    [CreateConnectorClient serviceUrl, CreateConversation conversationParameters],
                    [])
               | Inr response_id \<Rightarrow>
                   (let rest = restActivity text atts ms;
                        conversationReference =
                          (getConversationReference (Inr first))
                            \<lparr>ref_conversation :=
                               Some \<lparr>ca_isGroup = True, ca_id = response_id,
                                     conversationType = ''channel''\<rparr>,
                             ref_serviceUrl := Some serviceUrl\<rparr>
                    in (None,
                        [CreateConnectorClient serviceUrl,
                         CreateConversation conversationParameters,
                         ContinueConversation conversationReference rest],
                        (case continueConversation tr conversationReference rest of
                           None \<Rightarrow> []
                         | Some e \<Rightarrow> [e]))))))"

definition proactive ::
  "('i, 'a) transport \<Rightarrow> BotActivityHandler \<Rightarrow> IChannel \<Rightarrow> string \<Rightarrow> 'a list \<Rightarrow> IMention list
     \<Rightarrow> js_error option \<times> ('i, 'a) effects" where
  "proactive tr bh target text atts ms =
     (let l0 = [Log_info SendProactiveMessage]
      in if length (getServiceUrl bh) = 0 then
           (None, \<lparr>eff_log = l0 @ [Log_error CachedServiceUrlEmpty],
                   eff_calls = [], eff_unhandled = []\<rparr>)
         else
           (let found = findChannel bh target;
                l1 = l0 @ [Log_info (TargetChannelInfo found)]
            in (case found of
                  None \<Rightarrow>
                    (None, \<lparr>eff_log = l1 @ [Log_error (ChannelDoesNotExist target)],
                            eff_calls = [], eff_unhandled = []\<rparr>)
                | Some channelInfo \<Rightarrow>
                    (let serviceUrl = findServiceUrl bh (chan_id channelInfo);
                         l2 = l1 @ [Log_info (ServiceUrl serviceUrl)]
                     in if serviceUrl = '''' then
                          (None,
                           \<lparr>eff_log = l2 @ [Log_error (ServiceUrlDoesNotExist channelInfo)],
                            eff_calls = [], eff_unhandled = []\<rparr>)
                        else
                          (case createAndContinue tr channelInfo serviceUrl text atts ms of
                             (thrown, cs, us) \<Rightarrow>
                               (thrown,
                                \<lparr>eff_log = l2, eff_calls = cs, eff_unhandled = us\<rparr>))))))"

text \<open>The live turn of the context data, if there is one: the test that chooses the
  conversational branch.\<close>

definition liveTurn :: "'i IChatContextData \<Rightarrow> 'i option" where
  "liveTurn contextData =
     (case chatToolContext contextData of
        None \<Rightarrow> None
      | Some c \<Rightarrow> turnContext c)"

text \<open>What the caller of \<^verbatim>\<open>send\<close> can observe. \<open>settled\<close> is how the promise settles:
  \<open>Inr ()\<close> fulfilled, \<open>Inl e\<close> rejected with \<open>e\<close>.\<close>

record ('i, 'a) outcome =
  settled :: "js_error + unit"
  log :: "log_entry list"
  calls :: "('i, 'a) transport_call list"
  unhandled :: "js_error list"
  objects_after :: store

text \<open>The \<^verbatim>\<open>try\<close> block after the loop (lines 159 to 282): building the activity and
  sending it.\<close>

definition deliver ::
  "('i, 'a) transport \<Rightarrow> BotActivityHandler \<Rightarrow> 'i IChatContextData \<Rightarrow> 'a locals
     \<Rightarrow> js_error option \<times> ('i, 'a) effects" where
  "deliver tr bh contextData s =
     (case getActivity (textMessage s) (attachments s) of
        None \<Rightarrow>
          (None, \<lparr>eff_log = [Log_warn MessageEmpty], eff_calls = [], eff_unhandled = []\<rparr>)
      | Some activity \<Rightarrow>
          (case liveTurn contextData of
             Some tc \<Rightarrow> conversation tr tc activity
           | None \<Rightarrow>
               proactive tr bh (channel contextData) (textMessage s) (attachments s)
                 (mentions s)))"

text \<open>\<^verbatim>\<open>send\<close> (lines 108 to 290): the \<^verbatim>\<open>try\<close> block, the \<^verbatim>\<open>catch\<close> that logs the
  stack of whatever was thrown, and the \<^verbatim>\<open>finally\<close>. The caller's store is the last
  argument. Nothing is thrown out of the method, so its promise is always fulfilled.\<close>

definition send ::
  "('p, 'a) platform \<Rightarrow> ('i, 'a) transport \<Rightarrow> BotActivityHandler \<Rightarrow> 'i IChatContextData
     \<Rightarrow> 'p IMessage list \<Rightarrow> store \<Rightarrow> ('i, 'a) outcome" where
  "send pf tr bh contextData messages st =
     (let s = compose pf bh messages st;
          (thrown, eff) = deliver tr bh contextData s
      in \<lparr>settled = Inr (),
          log = [Log_start ''send''] @ logged s @ eff_log eff
                @ (case thrown of None \<Rightarrow> [] | Some e \<Rightarrow> [Log_error (ErrorStack e)])
                @ [Log_end ''send''],
          calls = eff_calls eff,
          unhandled = eff_unhandled eff,
          objects_after = objects s\<rparr>)"

subsection \<open>processTurnError\<close>

text \<open>\<^verbatim>\<open>processTurnError\<close> (lines 55 to 77) awaits two operations of the turn, each
  rejected (\<open>Some e\<close>) or fulfilled.\<close>

record turn =
  sendTraceActivity :: "js_error \<Rightarrow> js_error option"
  sendActivity :: "string \<Rightarrow> js_error option"

datatype turn_call = SendTraceActivity js_error | SendActivity string

record turn_outcome =
  turn_settled :: "js_error + unit"
  turn_log :: "log_entry list"
  turn_calls :: "turn_call list"

definition apology :: string where
  "apology = ''The bot encountered an error or bug. To continue to run this bot, please fix the bot source code.''"

definition processTurnError :: "turn \<Rightarrow> js_error \<Rightarrow> turn_outcome" where
  "processTurnError tc error =
     (let l0 = [Log_start ''processTurnError'', Log_error (UnhandledError error),
                Log_error (ErrorStack error)];
          (thrown, cs) =
             (case sendTraceActivity tc error of
                Some e \<Rightarrow> (Some e, [SendTraceActivity error])
              | None \<Rightarrow> (sendActivity tc apology, [SendTraceActivity error, SendActivity apology]))
      in \<lparr>turn_settled = Inr (),
          turn_log = l0 @ (case thrown of None \<Rightarrow> [] | Some e \<Rightarrow> [Log_error (ErrorStack e)])
                     @ [Log_end ''processTurnError''],
          turn_calls = cs\<rparr>)"

subsection \<open>Notions used in the statements\<close>

text \<open>What one message contributes to the text, to the attachments and to the log.\<close>

definition textPart :: "('p, 'a) platform \<Rightarrow> 'p IMessage \<Rightarrow> string" where
  "textPart pf message =
     (case msg_type message of
        PLAIN_TEXT \<Rightarrow> ''\<newline>'' @ templateString pf (msg_message message)
      | MSTEAMS_ADAPTIVE_CARD \<Rightarrow> ''''
      | OTHER t \<Rightarrow> ''\<newline>'' @ JSON_stringify pf (msg_message message))"

definition cardPart :: "('p, 'a) platform \<Rightarrow> 'p IMessage \<Rightarrow> 'a list" where
  "cardPart pf message =
     (case msg_type message of
        MSTEAMS_ADAPTIVE_CARD \<Rightarrow> [adaptiveCard pf (msg_message message)]
      | _ \<Rightarrow> [])"

definition logPart :: "'p IMessage \<Rightarrow> log_entry list" where
  "logPart message =
     (case msg_type message of
        OTHER t \<Rightarrow> [Log_error (UnsupportedType (OTHER t))]
      | _ \<Rightarrow> [])"

text \<open>The mentions of a request, in the order in which the loop reaches them.\<close>

definition mentionsOf :: "'p IMessage \<Rightarrow> IMention list" where
  "mentionsOf message = (case msg_mentions message of None \<Rightarrow> [] | Some ms \<Rightarrow> ms)"

definition allMentions :: "'p IMessage list \<Rightarrow> IMention list" where
  "allMentions messages = concat (map mentionsOf messages)"

text \<open>The value of a mention's object after the lookup, as a function of its value before
  it, and the test that decides whether the mention is kept.\<close>

definition filled :: "BotActivityHandler \<Rightarrow> IChannel \<Rightarrow> IChannel" where
  "filled bh m =
     (if trim (chan_id m) = '''' \<and> trim (chan_name m) \<noteq> '''' then
        (case findChannelByName bh (chan_name m) of
           None \<Rightarrow> m
         | Some channelInfo \<Rightarrow> m\<lparr>chan_id := chan_id channelInfo\<rparr>)
      else
        (case findChannelById bh (chan_id m) of
           None \<Rightarrow> m
         | Some channelInfo \<Rightarrow> m\<lparr>chan_name := chan_name channelInfo\<rparr>))"

definition complete :: "IChannel \<Rightarrow> bool" where
  "complete m = (chan_id m \<noteq> '''' \<and> chan_name m \<noteq> '''')"

subsection \<open>Concrete inputs\<close>

text \<open>Payloads that are strings: a template literal leaves a string as it is,
  \<^verbatim>\<open>JSON.stringify\<close> puts it in double quotes (no character of the examples needs an
  escape), and the card of a payload is the payload.\<close>

definition example_platform :: "(string, string) platform" where
  "example_platform =
     \<lparr>templateString = (\<lambda>p. p),
      JSON_stringify = (\<lambda>p. [CHR 0x22] @ p @ [CHR 0x22]),
      adaptiveCard = (\<lambda>p. p)\<rparr>"

text \<open>A platform that accepts every call and names each new conversation \<open>T1\<close>, and one
  whose \<^verbatim>\<open>continueConversation\<close> is rejected with the error \<open>E\<close>.\<close>

definition accepting :: "(string, string) transport" where
  "accepting =
     \<lparr>createConnectorClient = (\<lambda>u. None),
      createConversation = (\<lambda>p. Inr ''T1''),
      continueConversation = (\<lambda>r a. None)\<rparr>"

definition rejecting :: "(string, string) transport" where
  "rejecting = accepting\<lparr>continueConversation := (\<lambda>r a. Some ''E'')\<rparr>"

text \<open>A handler that knows a list of channels and a list of service URLs by channel id,
  and answers the empty string for a channel id without URL.\<close>

definition handler_of :: "IChannel list \<Rightarrow> (string \<times> string) list \<Rightarrow> BotActivityHandler" where
  "handler_of channels urls =
     \<lparr>findChannelByName = (\<lambda>n. find (\<lambda>c. chan_name c = n) channels),
      findChannelById = (\<lambda>i. find (\<lambda>c. chan_id c = i) channels),
      getServiceUrl = urls,
      findServiceUrl = (\<lambda>i. case map_of urls i of None \<Rightarrow> '''' | Some u \<Rightarrow> u)\<rparr>"

definition ops :: IChannel where
  "ops = \<lparr>chan_id = ''C1'', chan_name = ''ops''\<rparr>"

definition general :: IChannel where
  "general = \<lparr>chan_id = ''C2'', chan_name = ''general''\<rparr>"

text \<open>After a turn from each of two channels; before any turn; and with a channel known
  whose service URL is not (the URL of another channel is cached).\<close>

definition handler_seen :: BotActivityHandler where
  "handler_seen =
     handler_of [ops, general] [(''C1'', ''https://svc/a''), (''C2'', ''https://svc/a'')]"

definition handler_fresh :: BotActivityHandler where
  "handler_fresh = handler_of [] []"

definition handler_partial :: BotActivityHandler where
  "handler_partial = handler_of [ops, general] [(''C2'', ''https://svc/a'')]"

text \<open>A handler that knows a channel whose name is one space.\<close>

definition handler_blank :: BotActivityHandler where
  "handler_blank =
     handler_of [\<lparr>chan_id = ''C3'', chan_name = '' ''\<rparr>] [(''C3'', ''https://svc/a'')]"

text \<open>Context data without a live turn, addressed by name and by id, and with a live
  turn \<open>T0\<close>.\<close>

definition to_ops :: "string IChatContextData" where
  "to_ops = \<lparr>chatToolContext = None, channel = \<lparr>chan_id = '''', chan_name = ''ops''\<rparr>\<rparr>"

definition to_C9 :: "string IChatContextData" where
  "to_C9 = \<lparr>chatToolContext = None, channel = \<lparr>chan_id = ''C9'', chan_name = ''''\<rparr>\<rparr>"

definition in_turn :: "string IChatContextData" where
  "in_turn =
     \<lparr>chatToolContext = Some \<lparr>turnContext = Some ''T0''\<rparr>,
      channel = \<lparr>chan_id = ''C1'', chan_name = ''ops''\<rparr>\<rparr>"

definition plain :: "string \<Rightarrow> string IMessage" where
  "plain t = \<lparr>msg_type = PLAIN_TEXT, msg_message = t, msg_mentions = None\<rparr>"

definition adaptive :: "string \<Rightarrow> string IMessage" where
  "adaptive t = \<lparr>msg_type = MSTEAMS_ADAPTIVE_CARD, msg_message = t, msg_mentions = None\<rparr>"

definition other :: "string \<Rightarrow> string IMessage" where
  "other t = \<lparr>msg_type = OTHER ''slack.block'', msg_message = t, msg_mentions = None\<rparr>"

text \<open>A text with two mentions, whose objects are at the addresses 0 and 1.\<close>

definition mentioning :: "string \<Rightarrow> string IMessage" where
  "mentioning t =
     \<lparr>msg_type = PLAIN_TEXT, msg_message = t,
      msg_mentions = Some [\<lparr>mentioned = 0\<rparr>, \<lparr>mentioned = 1\<rparr>]\<rparr>"

text \<open>Stores: in the first, the object at 0 has a name only and every other object an id
  only; in the second, every object has the name of one space and no id.\<close>

definition store_named :: store where
  "store_named =
     (\<lambda>a. if a = 0 then \<lparr>chan_id = '''', chan_name = ''general''\<rparr>
          else \<lparr>chan_id = ''C9'', chan_name = ''''\<rparr>)"

definition store_blank :: store where
  "store_blank = (\<lambda>a. \<lparr>chan_id = '''', chan_name = '' ''\<rparr>)"

section \<open>Properties\<close>

subsection \<open>The loop\<close>

lemma trim_Nil: "trim '''' = ''''"
  by (simp add: trim_def)

lemma trim_eq_Nil: "trim s = '''' \<longleftrightarrow> (\<forall>c \<in> set s. isWhiteSpace c)"
proof -
  have "(\<forall>x \<in> set (dropWhile isWhiteSpace s). isWhiteSpace x) \<longleftrightarrow> dropWhile isWhiteSpace s = []"
    using hd_dropWhile [of isWhiteSpace s]
    by (cases "dropWhile isWhiteSpace s") (auto dest: set_dropWhileD)
  then show ?thesis
    by (simp add: trim_def dropWhile_eq_Nil_conv)
qed

text \<open>One pass of the mention loop writes one object and may append one mention.\<close>

lemma resolveMention_eq:
  "resolveMention bh mention s =
     s\<lparr>objects := (objects s)(mentioned mention := filled bh (objects s (mentioned mention))),
       mentions := mentions s @
         (if complete (filled bh (objects s (mentioned mention))) then [mention] else [])\<rparr>"
  by (auto simp: resolveMention_def filled_def complete_def Let_def split: option.splits)

lemma resolveMentions_append:
  "resolveMentions bh (xs @ ys) s = resolveMentions bh ys (resolveMentions bh xs s)"
  by (induction xs arbitrary: s) simp_all

lemma resolveMentions_frame:
  "textMessage (resolveMentions bh ms s) = textMessage s \<and>
   attachments (resolveMentions bh ms s) = attachments s \<and>
   logged (resolveMentions bh ms s) = logged s"
  by (induction ms arbitrary: s) (simp_all add: resolveMention_eq)

lemma resolveMentions_objects_other:
  "a \<notin> mentioned ` set ms \<Longrightarrow> objects (resolveMentions bh ms s) a = objects s a"
  by (induction ms arbitrary: s) (simp_all add: resolveMention_eq)

lemma resolveMentions_cong:
  "objects s = objects t \<Longrightarrow> mentions s = mentions t \<Longrightarrow>
   objects (resolveMentions bh ms s) = objects (resolveMentions bh ms t) \<and>
   mentions (resolveMentions bh ms s) = mentions (resolveMentions bh ms t)"
  by (induction ms arbitrary: s t) (simp_all add: resolveMention_eq)

lemma appendPart_frame:
  "objects (appendPart pf message s) = objects s \<and>
   mentions (appendPart pf message s) = mentions s"
  by (cases "msg_type message") (simp_all add: appendPart_def)

lemma appendPart_text:
  "textMessage (appendPart pf message s) = textMessage s @ textPart pf message \<and>
   attachments (appendPart pf message s) = attachments s @ cardPart pf message \<and>
   logged (appendPart pf message s) = logged s @ logPart message"
  by (cases "msg_type message")
     (simp_all add: appendPart_def textPart_def cardPart_def logPart_def)

text \<open>The store and the mention list after a message are those of the mention loop alone:
  adding the part reads and writes neither.\<close>

lemma processMessage_objects:
  "objects (processMessage pf bh message s) = objects (resolveMentions bh (mentionsOf message) s) \<and>
   mentions (processMessage pf bh message s) = mentions (resolveMentions bh (mentionsOf message) s)"
proof (cases "msg_mentions message")
  case None
  then show ?thesis
    by (simp add: processMessage_def mentionsOf_def appendPart_frame)
next
  case (Some ms)
  with resolveMentions_cong [of "appendPart pf message s" s bh ms] show ?thesis
    by (simp add: processMessage_def mentionsOf_def appendPart_frame)
qed

lemma processMessages_objects:
  "objects (processMessages pf bh messages s) = objects (resolveMentions bh (allMentions messages) s) \<and>
   mentions (processMessages pf bh messages s) = mentions (resolveMentions bh (allMentions messages) s)"
proof (induction messages arbitrary: s)
  case Nil
  then show ?case by (simp add: allMentions_def)
next
  case (Cons message rest)
  have "allMentions (message # rest) = mentionsOf message @ allMentions rest"
    by (simp add: allMentions_def)
  moreover note Cons.IH [of "processMessage pf bh message s"]
    processMessage_objects [of pf bh message s]
    resolveMentions_cong [of "processMessage pf bh message s"
      "resolveMentions bh (mentionsOf message) s" bh "allMentions rest"]
  ultimately show ?case
    by (simp add: resolveMentions_append)
qed

lemma processMessage_text:
  "textMessage (processMessage pf bh message s) = textMessage s @ textPart pf message \<and>
   attachments (processMessage pf bh message s) = attachments s @ cardPart pf message \<and>
   logged (processMessage pf bh message s) = logged s @ logPart message"
  by (cases "msg_mentions message")
     (simp_all add: processMessage_def resolveMentions_frame appendPart_text)

lemma processMessages_text:
  "textMessage (processMessages pf bh messages s) = textMessage s @ concat (map (textPart pf) messages) \<and>
   attachments (processMessages pf bh messages s) = attachments s @ concat (map (cardPart pf) messages) \<and>
   logged (processMessages pf bh messages s) = logged s @ concat (map logPart messages)"
  by (induction messages arbitrary: s) (simp_all add: processMessage_text)

lemma compose_text:
  "textMessage (compose pf bh messages st) = concat (map (textPart pf) messages)"
  "attachments (compose pf bh messages st) = concat (map (cardPart pf) messages)"
  "logged (compose pf bh messages st) = concat (map logPart messages)"
  by (simp_all add: compose_def initial_def processMessages_text)

lemma compose_objects:
  fixes pf :: "('p, 'a) platform"
  shows "objects (compose pf bh messages st) =
           objects (resolveMentions bh (allMentions messages) (initial st :: 'a locals))"
    and "mentions (compose pf bh messages st) =
           mentions (resolveMentions bh (allMentions messages) (initial st :: 'a locals))"
  by (simp_all add: compose_def processMessages_objects)

text \<open>Every message adds to the text or to the attachments, so only the empty request
  composes to nothing.\<close>

lemma part_nonempty: "textPart pf message \<noteq> [] \<or> cardPart pf message \<noteq> []"
  by (simp add: textPart_def cardPart_def split: IMessageType.splits)

lemma compose_nonempty:
  "messages \<noteq> [] \<Longrightarrow>
   textMessage (compose pf bh messages st) \<noteq> [] \<or> attachments (compose pf bh messages st) \<noteq> []"
proof (cases messages)
  case Nil
  assume "messages \<noteq> []"
  with Nil show ?thesis by simp
next
  case (Cons message rest)
  with part_nonempty [of pf message] show ?thesis
    by (simp add: compose_text) blast
qed

lemma getActivity_None: "getActivity text atts = None \<longleftrightarrow> text = [] \<and> atts = []"
  by (simp add: getActivity_def)

text \<open>The loop over a request in two parts is the loop over the first, then over the
  second.\<close>

lemma processMessages_append:
  "processMessages pf bh (xs @ ys) s = processMessages pf bh ys (processMessages pf bh xs s)"
  by (induction xs arbitrary: s) simp_all

text \<open>The mention list only grows.\<close>

lemma resolveMentions_prefix:
  "\<exists>more. mentions (resolveMentions bh ms s) = mentions s @ more"
proof (induction ms arbitrary: s)
  case Nil
  then show ?case by simp
next
  case (Cons x xs)
  from Cons.IH [of "resolveMention bh x s"]
  obtain more where "mentions (resolveMentions bh xs (resolveMention bh x s)) =
      mentions (resolveMention bh x s) @ more"
    by blast
  then show ?case
    by (simp add: resolveMention_eq)
qed

lemma processMessages_prefix:
  "\<exists>more. mentions (processMessages pf bh messages s) = mentions s @ more"
  using resolveMentions_prefix [of bh "allMentions messages" s]
  by (simp add: processMessages_objects)

text \<open>The state of the loop after a request, seen from one of its mentions: what precedes
  the mention, its own pass, and what follows.\<close>

lemma compose_split:
  assumes "messages = earlier @ message # later"
    and "msg_mentions message = Some (before @ mention # after)"
  shows "compose pf bh messages st =
     processMessages pf bh later
       (resolveMentions bh after
          (resolveMention bh mention
             (resolveMentions bh before
                (appendPart pf message (processMessages pf bh earlier (initial st))))))"
  using assms
  by (simp add: compose_def processMessages_append processMessage_def resolveMentions_append)

subsection \<open>Delivery\<close>

text \<open>The outcome of \<^verbatim>\<open>send\<close>, field by field, from what the \<^verbatim>\<open>try\<close> block did.\<close>

lemma send_fields:
  "settled (send pf tr bh contextData messages st) = Inr ()"
  "calls (send pf tr bh contextData messages st) =
     eff_calls (snd (deliver tr bh contextData (compose pf bh messages st)))"
  "unhandled (send pf tr bh contextData messages st) =
     eff_unhandled (snd (deliver tr bh contextData (compose pf bh messages st)))"
  "objects_after (send pf tr bh contextData messages st) = objects (compose pf bh messages st)"
  "log (send pf tr bh contextData messages st) =
     Log_start ''send'' # concat (map logPart messages)
     @ eff_log (snd (deliver tr bh contextData (compose pf bh messages st)))
     @ (case fst (deliver tr bh contextData (compose pf bh messages st)) of
          None \<Rightarrow> []
        | Some e \<Rightarrow> [Log_error (ErrorStack e)])
     @ [Log_end ''send'']"
  by (simp_all add: send_def Let_def compose_text split: prod.splits)

lemma deliver_empty:
  "deliver tr bh contextData (compose pf bh [] st) =
     (None, \<lparr>eff_log = [Log_warn MessageEmpty], eff_calls = [], eff_unhandled = []\<rparr>)"
  by (simp add: deliver_def compose_def initial_def getActivity_def)

lemma deliver_conversation:
  "getActivity (textMessage s) (attachments s) = Some activity \<Longrightarrow>
   liveTurn contextData = Some tc \<Longrightarrow>
   deliver tr bh contextData s = conversation tr tc activity"
  by (simp add: deliver_def)

lemma deliver_proactive:
  "getActivity (textMessage s) (attachments s) \<noteq> None \<Longrightarrow> liveTurn contextData = None \<Longrightarrow>
   deliver tr bh contextData s =
     proactive tr bh (channel contextData) (textMessage s) (attachments s) (mentions s)"
  by (auto simp: deliver_def)

lemma deliver_proactive_compose:
  "messages \<noteq> [] \<Longrightarrow> liveTurn contextData = None \<Longrightarrow>
   deliver tr bh contextData (compose pf bh messages st) =
     proactive tr bh (channel contextData) (textMessage (compose pf bh messages st))
       (attachments (compose pf bh messages st)) (mentions (compose pf bh messages st))"
  using compose_nonempty [of messages pf bh st]
  by (intro deliver_proactive) (auto simp: getActivity_None)

lemma proactive_cache_empty:
  "length (getServiceUrl bh) = 0 \<Longrightarrow>
   proactive tr bh target text atts ms =
     (None, \<lparr>eff_log = [Log_info SendProactiveMessage, Log_error CachedServiceUrlEmpty],
             eff_calls = [], eff_unhandled = []\<rparr>)"
  by (simp add: proactive_def)

lemma proactive_no_channel:
  "0 < length (getServiceUrl bh) \<Longrightarrow> findChannel bh target = None \<Longrightarrow>
   proactive tr bh target text atts ms =
     (None, \<lparr>eff_log = [Log_info SendProactiveMessage, Log_info (TargetChannelInfo None),
                        Log_error (ChannelDoesNotExist target)],
             eff_calls = [], eff_unhandled = []\<rparr>)"
  by (simp add: proactive_def)

lemma proactive_no_url:
  "0 < length (getServiceUrl bh) \<Longrightarrow> findChannel bh target = Some channelInfo \<Longrightarrow>
   findServiceUrl bh (chan_id channelInfo) = '''' \<Longrightarrow>
   proactive tr bh target text atts ms =
     (None, \<lparr>eff_log = [Log_info SendProactiveMessage,
                        Log_info (TargetChannelInfo (Some channelInfo)),
                        Log_info (ServiceUrl ''''),
                        Log_error (ServiceUrlDoesNotExist channelInfo)],
             eff_calls = [], eff_unhandled = []\<rparr>)"
  by (simp add: proactive_def)

lemma proactive_push:
  "0 < length (getServiceUrl bh) \<Longrightarrow> findChannel bh target = Some channelInfo \<Longrightarrow>
   findServiceUrl bh (chan_id channelInfo) \<noteq> '''' \<Longrightarrow>
   proactive tr bh target text atts ms =
     (case createAndContinue tr channelInfo (findServiceUrl bh (chan_id channelInfo)) text atts ms of
        (thrown, cs, us) \<Rightarrow>
          (thrown,
           \<lparr>eff_log = [Log_info SendProactiveMessage,
                       Log_info (TargetChannelInfo (Some channelInfo)),
                       Log_info (ServiceUrl (findServiceUrl bh (chan_id channelInfo)))],
            eff_calls = cs, eff_unhandled = us\<rparr>))"
  by (simp add: proactive_def Let_def)

text \<open>The whole outcome of a send of the empty request, and of a send that one of the
  three checks of the proactive branch ends.\<close>

lemma send_empty:
  "send pf tr bh contextData [] st =
     \<lparr>settled = Inr (), log = [Log_start ''send'', Log_warn MessageEmpty, Log_end ''send''],
      calls = [], unhandled = [], objects_after = st\<rparr>"
  by (simp add: send_def Let_def deliver_empty) (simp add: compose_def initial_def)

lemma send_cache_empty:
  assumes "messages \<noteq> []" and "liveTurn contextData = None"
    and "length (getServiceUrl bh) = 0"
  shows "send pf tr bh contextData messages st =
     \<lparr>settled = Inr (),
      log = Log_start ''send'' # concat (map logPart messages)
            @ [Log_info SendProactiveMessage, Log_error CachedServiceUrlEmpty, Log_end ''send''],
      calls = [], unhandled = [], objects_after = objects (compose pf bh messages st)\<rparr>"
  using assms
  by (simp add: send_def Let_def compose_text deliver_proactive_compose proactive_cache_empty)

lemma send_no_channel:
  assumes "messages \<noteq> []" and "liveTurn contextData = None"
    and "0 < length (getServiceUrl bh)"
    and "findChannel bh (channel contextData) = None"
  shows "send pf tr bh contextData messages st =
     \<lparr>settled = Inr (),
      log = Log_start ''send'' # concat (map logPart messages)
            @ [Log_info SendProactiveMessage, Log_info (TargetChannelInfo None),
               Log_error (ChannelDoesNotExist (channel contextData)), Log_end ''send''],
      calls = [], unhandled = [], objects_after = objects (compose pf bh messages st)\<rparr>"
  using assms
  by (simp add: send_def Let_def compose_text deliver_proactive_compose proactive_no_channel)

lemma send_no_url:
  assumes "messages \<noteq> []" and "liveTurn contextData = None"
    and "0 < length (getServiceUrl bh)"
    and "findChannel bh (channel contextData) = Some channelInfo"
    and "findServiceUrl bh (chan_id channelInfo) = ''''"
  shows "send pf tr bh contextData messages st =
     \<lparr>settled = Inr (),
      log = Log_start ''send'' # concat (map logPart messages)
            @ [Log_info SendProactiveMessage, Log_info (TargetChannelInfo (Some channelInfo)),
               Log_info (ServiceUrl ''''),
               Log_error (ServiceUrlDoesNotExist channelInfo), Log_end ''send''],
      calls = [], unhandled = [], objects_after = objects (compose pf bh messages st)\<rparr>"
  using assms
  by (simp add: send_def Let_def compose_text deliver_proactive_compose proactive_no_url)

text \<open>Once the three checks are passed, the first transport call creates the connector
  client for the service URL of the channel that was found.\<close>

lemma createAndContinue_first:
  "\<exists>cs. fst (snd (createAndContinue tr channelInfo serviceUrl text atts ms)) =
     CreateConnectorClient serviceUrl # cs"
  by (simp add: createAndContinue_def Let_def split: option.splits sum.splits)

lemma send_push_first:
  assumes "messages \<noteq> []" and "liveTurn contextData = None"
    and "0 < length (getServiceUrl bh)"
    and "findChannel bh (channel contextData) = Some channelInfo"
    and "findServiceUrl bh (chan_id channelInfo) \<noteq> ''''"
  shows "\<exists>cs. calls (send pf tr bh contextData messages st) =
     CreateConnectorClient (findServiceUrl bh (chan_id channelInfo)) # cs"
  using assms createAndContinue_first [of tr channelInfo "findServiceUrl bh (chan_id channelInfo)"
      "textMessage (compose pf bh messages st)" "attachments (compose pf bh messages st)"
      "mentions (compose pf bh messages st)"]
  by (auto simp: send_fields deliver_proactive_compose proactive_push split: prod.splits)

text \<open>The transport calls when the client and the conversation are created.\<close>

lemma createAndContinue_created:
  assumes "createConnectorClient tr serviceUrl = None"
    and "createConversation tr
           \<lparr>cp_isGroup = True, channelData_channel = channelInfo,
            cp_activity = firstActivity text atts ms\<rparr> = Inr response_id"
  shows "createAndContinue tr channelInfo serviceUrl text atts ms =
     (None,
      [CreateConnectorClient serviceUrl,
       CreateConversation
         \<lparr>cp_isGroup = True, channelData_channel = channelInfo,
          cp_activity = firstActivity text atts ms\<rparr>,
       ContinueConversation
         \<lparr>ref_of = Inr (firstActivity text atts ms),
          ref_conversation =
            Some \<lparr>ca_isGroup = True, ca_id = response_id, conversationType = ''channel''\<rparr>,
          ref_serviceUrl = Some serviceUrl\<rparr>
         (restActivity text atts ms)],
      (case continueConversation tr
              \<lparr>ref_of = Inr (firstActivity text atts ms),
               ref_conversation =
                 Some \<lparr>ca_isGroup = True, ca_id = response_id, conversationType = ''channel''\<rparr>,
               ref_serviceUrl = Some serviceUrl\<rparr>
              (restActivity text atts ms) of
         None \<Rightarrow> []
       | Some e \<Rightarrow> [e]))"
  using assms by (simp add: createAndContinue_def Let_def getConversationReference_def)

text \<open>The whole outcome of a proactive send that passes the three checks.\<close>

lemma send_delivered:
  assumes "messages \<noteq> []" and "liveTurn contextData = None"
    and "0 < length (getServiceUrl bh)"
    and "findChannel bh (channel contextData) = Some channelInfo"
    and "findServiceUrl bh (chan_id channelInfo) = serviceUrl"
    and "serviceUrl \<noteq> ''''"
    and "createAndContinue tr channelInfo serviceUrl (textMessage (compose pf bh messages st))
           (attachments (compose pf bh messages st)) (mentions (compose pf bh messages st))
         = (thrown, cs, us)"
  shows "send pf tr bh contextData messages st =
     \<lparr>settled = Inr (),
      log = Log_start ''send'' # concat (map logPart messages)
            @ [Log_info SendProactiveMessage, Log_info (TargetChannelInfo (Some channelInfo)),
               Log_info (ServiceUrl serviceUrl)]
            @ (case thrown of None \<Rightarrow> [] | Some e \<Rightarrow> [Log_error (ErrorStack e)])
            @ [Log_end ''send''],
      calls = cs, unhandled = us, objects_after = objects (compose pf bh messages st)\<rparr>"
proof -
  let ?s = "compose pf bh messages st"
  from assms(5,6) have "findServiceUrl bh (chan_id channelInfo) \<noteq> ''''" by simp
  from proactive_push [OF assms(3) assms(4) this, of tr "textMessage ?s" "attachments ?s"
      "mentions ?s"] assms(5,7)
  have "proactive tr bh (channel contextData) (textMessage ?s) (attachments ?s) (mentions ?s) =
      (thrown,
       \<lparr>eff_log = [Log_info SendProactiveMessage,
                   Log_info (TargetChannelInfo (Some channelInfo)),
                   Log_info (ServiceUrl serviceUrl)],
        eff_calls = cs, eff_unhandled = us\<rparr>)"
    by simp
  with deliver_proactive_compose [OF assms(1,2), of tr bh pf st]
  have "deliver tr bh contextData ?s =
      (thrown,
       \<lparr>eff_log = [Log_info SendProactiveMessage,
                   Log_info (TargetChannelInfo (Some channelInfo)),
                   Log_info (ServiceUrl serviceUrl)],
        eff_calls = cs, eff_unhandled = us\<rparr>)"
    by simp
  then show ?thesis
    by (simp add: send_def Let_def compose_text(3))
qed

subsection \<open>Containment of errors\<close>

text \<open>Whatever \<^verbatim>\<open>send\<close> awaits and is rejected is logged with its stack, and the
  promise of \<^verbatim>\<open>send\<close> is fulfilled whatever happens; likewise for
  \<^verbatim>\<open>processTurnError\<close>, which awaits both of its calls.\<close>

lemma send_contains_awaited:
  "settled (send pf tr bh contextData messages st) = Inr () \<and>
   (fst (deliver tr bh contextData (compose pf bh messages st)) = Some e \<longrightarrow>
      Log_error (ErrorStack e) \<in> set (log (send pf tr bh contextData messages st)))"
  by (simp add: send_fields)

lemma processTurnError_contained:
  "turn_settled (processTurnError tc error) = Inr () \<and>
   (sendTraceActivity tc error = Some e \<longrightarrow>
      turn_log (processTurnError tc error) =
        [Log_start ''processTurnError'', Log_error (UnhandledError error),
         Log_error (ErrorStack error), Log_error (ErrorStack e),
         Log_end ''processTurnError'']) \<and>
   (sendTraceActivity tc error = None \<and> sendActivity tc apology = Some e \<longrightarrow>
      turn_log (processTurnError tc error) =
        [Log_start ''processTurnError'', Log_error (UnhandledError error),
         Log_error (ErrorStack error), Log_error (ErrorStack e),
         Log_end ''processTurnError''])"
  by (cases "sendTraceActivity tc error") (simp_all add: processTurnError_def Let_def)

subsection \<open>Where the fields of an object come from\<close>

text \<open>A field of an object is as it was, or the Directory returned it.\<close>

lemma filled_provenance:
  "(chan_id (filled bh m) = chan_id m \<or>
      (\<exists>n c. findChannelByName bh n = Some c \<and> chan_id (filled bh m) = chan_id c)) \<and>
   (chan_name (filled bh m) = chan_name m \<or>
      (\<exists>i c. findChannelById bh i = Some c \<and> chan_name (filled bh m) = chan_name c))"
  by (auto simp: filled_def split: option.splits)

lemma resolveMentions_id_provenance:
  assumes "\<forall>a. chan_id (objects s a) = chan_id (st a) \<or>
              (\<exists>n c. findChannelByName bh n = Some c \<and> chan_id (objects s a) = chan_id c)"
  shows "\<forall>a. chan_id (objects (resolveMentions bh ms s) a) = chan_id (st a) \<or>
              (\<exists>n c. findChannelByName bh n = Some c \<and>
                 chan_id (objects (resolveMentions bh ms s) a) = chan_id c)"
  using assms
proof (induction ms arbitrary: s)
  case Nil
  then show ?case by simp
next
  case (Cons x xs)
  let ?s1 = "resolveMention bh x s"
  have "chan_id (objects ?s1 a) = chan_id (st a) \<or>
          (\<exists>n c. findChannelByName bh n = Some c \<and> chan_id (objects ?s1 a) = chan_id c)" for a
  proof (cases "a = mentioned x")
    case True
    from filled_provenance [of bh "objects s a"]
    have "chan_id (filled bh (objects s a)) = chan_id (objects s a) \<or>
        (\<exists>n c. findChannelByName bh n = Some c \<and> chan_id (filled bh (objects s a)) = chan_id c)"
      by blast
    then show ?thesis
    proof
      assume "chan_id (filled bh (objects s a)) = chan_id (objects s a)"
      with Cons.prems [rule_format, of a] True show ?thesis
        by (simp add: resolveMention_eq)
    next
      assume "\<exists>n c. findChannelByName bh n = Some c \<and> chan_id (filled bh (objects s a)) = chan_id c"
      with True show ?thesis
        by (simp add: resolveMention_eq)
    qed
  next
    case False
    with Cons.prems [rule_format, of a] show ?thesis
      by (simp add: resolveMention_eq)
  qed
  then have "\<forall>a. chan_id (objects ?s1 a) = chan_id (st a) \<or>
          (\<exists>n c. findChannelByName bh n = Some c \<and> chan_id (objects ?s1 a) = chan_id c)"
    by blast
  from Cons.IH [OF this] show ?case by simp
qed

lemma resolveMentions_name_provenance:
  assumes "\<forall>a. chan_name (objects s a) = chan_name (st a) \<or>
              (\<exists>i c. findChannelById bh i = Some c \<and> chan_name (objects s a) = chan_name c)"
  shows "\<forall>a. chan_name (objects (resolveMentions bh ms s) a) = chan_name (st a) \<or>
              (\<exists>i c. findChannelById bh i = Some c \<and>
                 chan_name (objects (resolveMentions bh ms s) a) = chan_name c)"
  using assms
proof (induction ms arbitrary: s)
  case Nil
  then show ?case by simp
next
  case (Cons x xs)
  let ?s1 = "resolveMention bh x s"
  have "chan_name (objects ?s1 a) = chan_name (st a) \<or>
          (\<exists>i c. findChannelById bh i = Some c \<and> chan_name (objects ?s1 a) = chan_name c)" for a
  proof (cases "a = mentioned x")
    case True
    from filled_provenance [of bh "objects s a"]
    have "chan_name (filled bh (objects s a)) = chan_name (objects s a) \<or>
        (\<exists>i c. findChannelById bh i = Some c \<and> chan_name (filled bh (objects s a)) = chan_name c)"
      by blast
    then show ?thesis
    proof
      assume "chan_name (filled bh (objects s a)) = chan_name (objects s a)"
      with Cons.prems [rule_format, of a] True show ?thesis
        by (simp add: resolveMention_eq)
    next
      assume "\<exists>i c. findChannelById bh i = Some c \<and> chan_name (filled bh (objects s a)) = chan_name c"
      with True show ?thesis
        by (simp add: resolveMention_eq)
    qed
  next
    case False
    with Cons.prems [rule_format, of a] show ?thesis
      by (simp add: resolveMention_eq)
  qed
  then have "\<forall>a. chan_name (objects ?s1 a) = chan_name (st a) \<or>
          (\<exists>i c. findChannelById bh i = Some c \<and> chan_name (objects ?s1 a) = chan_name c)"
    by blast
  from Cons.IH [OF this] show ?case by simp
qed

section \<open>The claims\<close>

subsection \<open>C1: the two units of a proactive send\<close>

text \<open>
  Claim C1. For every proactive send whose composed message has a non-empty text and at
  least one attachment, or no text and more than one attachment, two units are built: the
  first is the text if there is one and the first attachment otherwise, the rest holds the
  remaining attachments (all of them after a text, all but the first otherwise), and both
  carry the resolved mentions; for a single attachment without text there is no rest.
  These are the units of the transport calls: when the three checks are passed and the
  connector client and the conversation are created, the conversation is created with the
  first unit, and the rest is what is handed to the conversation that is continued.
\<close>

theorem proactive_units:
  "let s = compose pf bh messages st;
       text = textMessage s;
       atts = attachments s;
       ms = mentions s;
       first = firstActivity text atts ms;
       rest = restActivity text atts ms
   in (text \<noteq> '''' \<and> atts \<noteq> [] \<longrightarrow>
         first = Some \<lparr>act_text = Some text, act_attachments = None, act_entities = Some ms\<rparr> \<and>
         rest = Some \<lparr>act_text = None, act_attachments = Some atts, act_entities = Some ms\<rparr>) \<and>
      (text = '''' \<and> 1 < length atts \<longrightarrow>
         first = Some \<lparr>act_text = None, act_attachments = Some [hd atts],
                       act_entities = Some ms\<rparr> \<and>
         rest = Some \<lparr>act_text = None, act_attachments = Some (tl atts),
                      act_entities = Some ms\<rparr>) \<and>
      (text = '''' \<and> length atts = 1 \<longrightarrow>
         first = Some \<lparr>act_text = None, act_attachments = Some atts, act_entities = Some ms\<rparr> \<and>
         rest = None) \<and>
      (\<forall>channelInfo serviceUrl response_id.
         messages \<noteq> [] \<and> liveTurn contextData = None \<and> 0 < length (getServiceUrl bh) \<and>
         findChannel bh (channel contextData) = Some channelInfo \<and>
         findServiceUrl bh (chan_id channelInfo) = serviceUrl \<and> serviceUrl \<noteq> '''' \<and>
         createConnectorClient tr serviceUrl = None \<and>
         createConversation tr
           \<lparr>cp_isGroup = True, channelData_channel = channelInfo, cp_activity = first\<rparr>
           = Inr response_id \<longrightarrow>
         calls (send pf tr bh contextData messages st) =
           [CreateConnectorClient serviceUrl,
            CreateConversation
              \<lparr>cp_isGroup = True, channelData_channel = channelInfo, cp_activity = first\<rparr>,
            ContinueConversation
              \<lparr>ref_of = Inr first,
               ref_conversation =
                 Some \<lparr>ca_isGroup = True, ca_id = response_id, conversationType = ''channel''\<rparr>,
               ref_serviceUrl = Some serviceUrl\<rparr>
              rest])"
proof -
  let ?s = "compose pf bh messages st"
  let ?text = "textMessage ?s" and ?atts = "attachments ?s" and ?ms = "mentions ?s"
  have text_first: "firstActivity ?text ?atts ?ms =
      Some \<lparr>act_text = Some ?text, act_attachments = None, act_entities = Some ?ms\<rparr>"
    if "?text \<noteq> ''''"
    using that by (simp add: firstActivity_def MessageFactory_text_def)
  have card_first: "firstActivity ?text ?atts ?ms =
      Some \<lparr>act_text = None, act_attachments = Some [hd ?atts], act_entities = Some ?ms\<rparr>"
    if "?text = ''''" "?atts \<noteq> []"
    using that by (cases ?atts) (simp_all add: firstActivity_def MessageFactory_attachment_def)
  have single: "[hd ?atts] = ?atts" if "length ?atts = 1"
    using that by (cases ?atts) simp_all
  have delivered: "calls (send pf tr bh contextData messages st) =
      [CreateConnectorClient serviceUrl,
       CreateConversation
         \<lparr>cp_isGroup = True, channelData_channel = channelInfo,
          cp_activity = firstActivity ?text ?atts ?ms\<rparr>,
       ContinueConversation
         \<lparr>ref_of = Inr (firstActivity ?text ?atts ?ms),
          ref_conversation =
            Some \<lparr>ca_isGroup = True, ca_id = response_id, conversationType = ''channel''\<rparr>,
          ref_serviceUrl = Some serviceUrl\<rparr>
         (restActivity ?text ?atts ?ms)]"
    if "messages \<noteq> []" "liveTurn contextData = None" "0 < length (getServiceUrl bh)"
      "findChannel bh (channel contextData) = Some channelInfo"
      "findServiceUrl bh (chan_id channelInfo) = serviceUrl" "serviceUrl \<noteq> ''''"
      "createConnectorClient tr serviceUrl = None"
      "createConversation tr
         \<lparr>cp_isGroup = True, channelData_channel = channelInfo,
          cp_activity = firstActivity ?text ?atts ?ms\<rparr> = Inr response_id"
    for channelInfo serviceUrl response_id
    using send_delivered [OF that(1-6) createAndContinue_created [OF that(7,8)]]
    by simp
  show ?thesis
    unfolding Let_def
  proof (intro conjI impI allI, goal_cases)
    case 1
    then show ?case using text_first by simp
  next
    case 2
    then show ?case by (simp add: restActivity_def)
  next
    case 3
    then have t: "?text = ''''" and a: "?atts \<noteq> []" by auto
    show ?case by (rule card_first [OF t a])
  next
    case 4
    then show ?case by (simp add: restActivity_def)
  next
    case 5
    then have t: "?text = ''''" and a: "?atts \<noteq> []" and l: "length ?atts = 1" by auto
    from card_first [OF t a] single [OF l] show ?case by simp
  next
    case 6
    then show ?case by (simp add: restActivity_def)
  next
    case (7 channelInfo serviceUrl response_id)
    then show ?case using delivered [of channelInfo serviceUrl response_id] by blast
  qed
qed

text \<open>
  Claim C1, at three requests: two cards \<open>X\<close> and \<open>Y\<close>, sent to the channel \<open>ops\<close> (the
  conversation is created with \<open>X\<close> and continued with \<open>Y\<close>); the card \<open>X\<close> alone (no
  rest); a text with two mentions, of which one resolves, and a card (both units carry
  that mention).
\<close>

theorem proactive_units_witness:
  "(let s = compose example_platform handler_seen [adaptive ''X'', adaptive ''Y''] store_named
    in textMessage s = '''' \<and> attachments s = [''X'', ''Y''] \<and> mentions s = []) \<and>
   liveTurn to_ops = None \<and> 0 < length (getServiceUrl handler_seen) \<and>
   findChannel handler_seen (channel to_ops) = Some ops \<and>
   findServiceUrl handler_seen (chan_id ops) = ''https://svc/a'' \<and>
   createConnectorClient accepting ''https://svc/a'' = None \<and>
   calls (send example_platform accepting handler_seen to_ops [adaptive ''X'', adaptive ''Y'']
            store_named) =
     [CreateConnectorClient ''https://svc/a'',
      CreateConversation
        \<lparr>cp_isGroup = True, channelData_channel = ops,
         cp_activity =
           Some \<lparr>act_text = None, act_attachments = Some [''X''], act_entities = Some []\<rparr>\<rparr>,
      ContinueConversation
        \<lparr>ref_of =
           Inr (Some \<lparr>act_text = None, act_attachments = Some [''X''], act_entities = Some []\<rparr>),
         ref_conversation =
           Some \<lparr>ca_isGroup = True, ca_id = ''T1'', conversationType = ''channel''\<rparr>,
         ref_serviceUrl = Some ''https://svc/a''\<rparr>
        (Some \<lparr>act_text = None, act_attachments = Some [''Y''], act_entities = Some []\<rparr>)] \<and>
   (let s = compose example_platform handler_seen [adaptive ''X''] store_named
    in textMessage s = '''' \<and> attachments s = [''X''] \<and>
       firstActivity (textMessage s) (attachments s) (mentions s) =
         Some \<lparr>act_text = None, act_attachments = Some [''X''], act_entities = Some []\<rparr> \<and>
       restActivity (textMessage s) (attachments s) (mentions s) = None) \<and>
   (let s = compose example_platform handler_seen [mentioning ''hi'', adaptive ''A''] store_named
    in textMessage s = ''\<newline>hi'' \<and> attachments s = [''A''] \<and>
       mentions s = [\<lparr>mentioned = 0\<rparr>] \<and>
       firstActivity (textMessage s) (attachments s) (mentions s) =
         Some \<lparr>act_text = Some ''\<newline>hi'', act_attachments = None,
                act_entities = Some [\<lparr>mentioned = 0\<rparr>]\<rparr> \<and>
       restActivity (textMessage s) (attachments s) (mentions s) =
         Some \<lparr>act_text = None, act_attachments = Some [''A''],
                act_entities = Some [\<lparr>mentioned = 0\<rparr>]\<rparr>)"
proof -
  have gates: "liveTurn to_ops = None" "0 < length (getServiceUrl handler_seen)"
    "findChannel handler_seen (channel to_ops) = Some ops"
    "findServiceUrl handler_seen (chan_id ops) = ''https://svc/a''"
    "createConnectorClient accepting ''https://svc/a'' = None"
    by (simp_all add: liveTurn_def to_ops_def handler_seen_def handler_of_def findChannel_def
        ops_def general_def accepting_def)
  from gates(2) have cached: "getServiceUrl handler_seen \<noteq> []"
    by simp
  have atts: "attachments (compose example_platform handler_seen
        [adaptive ''X'', adaptive ''Y''] store_named) = [''X'', ''Y'']"
    "attachments (compose example_platform handler_seen [adaptive ''X''] store_named) = [''X'']"
    "attachments (compose example_platform handler_seen [mentioning ''hi'', adaptive ''A'']
        store_named) = [''A'']"
    by (simp_all add: compose_text cardPart_def adaptive_def mentioning_def example_platform_def)
  have texts: "textMessage (compose example_platform handler_seen
        [adaptive ''X'', adaptive ''Y''] store_named) = ''''"
    "textMessage (compose example_platform handler_seen [adaptive ''X''] store_named) = ''''"
    "textMessage (compose example_platform handler_seen [mentioning ''hi'', adaptive ''A'']
        store_named) = ''\<newline>hi''"
    by (simp_all add: compose_text textPart_def adaptive_def mentioning_def example_platform_def)
  have ments: "mentions (compose example_platform handler_seen
        [adaptive ''X'', adaptive ''Y''] store_named) = []"
    "mentions (compose example_platform handler_seen [adaptive ''X''] store_named) = []"
    "mentions (compose example_platform handler_seen [mentioning ''hi'', adaptive ''A'']
        store_named) = [\<lparr>mentioned = 0\<rparr>]"
    by (simp_all add: compose_objects allMentions_def mentionsOf_def adaptive_def mentioning_def
        resolveMention_eq initial_def filled_def complete_def store_named_def trim_def
        isWhiteSpace_def handler_seen_def handler_of_def ops_def general_def)
  have created: "createConversation accepting p = Inr ''T1''" for p
    by (simp add: accepting_def)
  from proactive_units [of example_platform handler_seen "[adaptive ''X'', adaptive ''Y'']"
      store_named to_ops accepting]
    proactive_units [of example_platform handler_seen "[adaptive ''X'']" store_named
      to_ops accepting]
    proactive_units [of example_platform handler_seen "[mentioning ''hi'', adaptive ''A'']"
      store_named to_ops accepting]
  show ?thesis
    by (simp add: Let_def gates cached atts texts ments created)
qed

subsection \<open>C2: the empty cache of service URLs\<close>

text \<open>
  Claim C2. For every send without a live turn while the cached map of service URLs is
  empty, the send fails with the refusal of the empty cache and makes no transport call
  (no connector client is created, no conversation is created or resumed). For every
  request no transport call is made; for every request with a part, the log after the
  entries of the loop ends with the entry of the proactive branch, the error of the empty
  cache and the end entry (the request without parts composes nothing, which ends the send
  before delivery); and the proactive branch itself, whatever it is handed, ends with that
  error and without a call.
\<close>

theorem cache_empty_refusal:
  assumes "liveTurn contextData = None" and "length (getServiceUrl bh) = 0"
  shows "calls (send pf tr bh contextData messages st) = [] \<and>
         unhandled (send pf tr bh contextData messages st) = [] \<and>
         (messages \<noteq> [] \<longrightarrow>
            log (send pf tr bh contextData messages st) =
              Log_start ''send'' # concat (map logPart messages)
              @ [Log_info SendProactiveMessage, Log_error CachedServiceUrlEmpty,
                 Log_end ''send'']) \<and>
         proactive tr bh target text atts ms =
           (None,
            \<lparr>eff_log = [Log_info SendProactiveMessage, Log_error CachedServiceUrlEmpty],
             eff_calls = [], eff_unhandled = []\<rparr>)"
proof (cases "messages = []")
  case True
  with assms(2) show ?thesis by (simp add: send_empty proactive_cache_empty)
next
  case False
  with assms show ?thesis by (simp add: send_cache_empty proactive_cache_empty)
qed

text \<open>Claim C2, at a request of a text and an unsupported part, before any turn was
  seen.\<close>

theorem cache_empty_refusal_witness:
  "liveTurn to_ops = None \<and> length (getServiceUrl handler_fresh) = 0 \<and>
   [plain ''hi'', other ''x''] \<noteq> [] \<and>
   calls (send example_platform accepting handler_fresh to_ops [plain ''hi'', other ''x'']
            store_named) = [] \<and>
   log (send example_platform accepting handler_fresh to_ops [plain ''hi'', other ''x'']
          store_named) =
     [Log_start ''send'', Log_error (UnsupportedType (OTHER ''slack.block'')),
      Log_info SendProactiveMessage, Log_error CachedServiceUrlEmpty, Log_end ''send'']"
  using cache_empty_refusal [of to_ops handler_fresh example_platform accepting
      "[plain ''hi'', other ''x'']" store_named]
  by (simp add: liveTurn_def to_ops_def handler_fresh_def handler_of_def logPart_def
      plain_def other_def)

subsection \<open>C3: the channel and its service URL\<close>

text \<open>
  Claim C3. For every proactive send (of a request with a part) with a non-empty cache,
  the target channel is looked up by name when its id is empty and its name is not, and by
  id otherwise; when the lookup finds nothing the send is refused with the error that the
  channel does not exist, and when \<^verbatim>\<open>findServiceUrl\<close> gives the empty string for the id
  of the channel found, it is refused with the error that the service URL does not exist;
  in both cases no transport call is made, by the send and by the proactive branch
  whatever it is handed. Otherwise the first transport call creates the connector client
  for that service URL.
\<close>

theorem channel_resolution:
  assumes "liveTurn contextData = None" and "0 < length (getServiceUrl bh)"
    and "messages \<noteq> []"
  shows
    "let target = channel contextData;
         found = (if chan_id target = '''' \<and> chan_name target \<noteq> ''''
                  then findChannelByName bh (chan_name target)
                  else findChannelById bh (chan_id target));
         r = send pf tr bh contextData messages st;
         before = Log_start ''send'' # concat (map logPart messages)
                  @ [Log_info SendProactiveMessage, Log_info (TargetChannelInfo found)]
     in (found = None \<longrightarrow>
           calls r = [] \<and> unhandled r = [] \<and>
           log r = before @ [Log_error (ChannelDoesNotExist target), Log_end ''send''] \<and>
           proactive tr bh target text atts ms =
             (None,
              \<lparr>eff_log = [Log_info SendProactiveMessage, Log_info (TargetChannelInfo None),
                          Log_error (ChannelDoesNotExist target)],
               eff_calls = [], eff_unhandled = []\<rparr>)) \<and>
        (\<forall>channelInfo. found = Some channelInfo \<longrightarrow>
           (findServiceUrl bh (chan_id channelInfo) = '''' \<longrightarrow>
              calls r = [] \<and> unhandled r = [] \<and>
              log r = before @ [Log_info (ServiceUrl ''''),
                                Log_error (ServiceUrlDoesNotExist channelInfo),
                                Log_end ''send''] \<and>
              proactive tr bh target text atts ms =
                (None,
                 \<lparr>eff_log = [Log_info SendProactiveMessage,
                             Log_info (TargetChannelInfo (Some channelInfo)),
                             Log_info (ServiceUrl ''''),
                             Log_error (ServiceUrlDoesNotExist channelInfo)],
                  eff_calls = [], eff_unhandled = []\<rparr>)) \<and>
           (findServiceUrl bh (chan_id channelInfo) \<noteq> '''' \<longrightarrow>
              (\<exists>cs. calls r =
                 CreateConnectorClient (findServiceUrl bh (chan_id channelInfo)) # cs)))"
proof -
  let ?found = "findChannel bh (channel contextData)"
  have none: "?found = None \<Longrightarrow>
      send pf tr bh contextData messages st =
        \<lparr>settled = Inr (),
         log = Log_start ''send'' # concat (map logPart messages)
               @ [Log_info SendProactiveMessage, Log_info (TargetChannelInfo None),
                  Log_error (ChannelDoesNotExist (channel contextData)), Log_end ''send''],
         calls = [], unhandled = [], objects_after = objects (compose pf bh messages st)\<rparr>"
    using assms by (intro send_no_channel)
  have no_url: "?found = Some c \<Longrightarrow> findServiceUrl bh (chan_id c) = '''' \<Longrightarrow>
      send pf tr bh contextData messages st =
        \<lparr>settled = Inr (),
         log = Log_start ''send'' # concat (map logPart messages)
               @ [Log_info SendProactiveMessage, Log_info (TargetChannelInfo (Some c)),
                  Log_info (ServiceUrl ''''),
                  Log_error (ServiceUrlDoesNotExist c), Log_end ''send''],
         calls = [], unhandled = [], objects_after = objects (compose pf bh messages st)\<rparr>" for c
    using assms by (intro send_no_url)
  have url: "?found = Some c \<Longrightarrow> findServiceUrl bh (chan_id c) \<noteq> '''' \<Longrightarrow>
      \<exists>cs. calls (send pf tr bh contextData messages st) =
        CreateConnectorClient (findServiceUrl bh (chan_id c)) # cs" for c
    using assms by (intro send_push_first)
  have branch_none: "?found = None \<Longrightarrow>
      proactive tr bh (channel contextData) text atts ms =
        (None,
         \<lparr>eff_log = [Log_info SendProactiveMessage, Log_info (TargetChannelInfo None),
                     Log_error (ChannelDoesNotExist (channel contextData))],
          eff_calls = [], eff_unhandled = []\<rparr>)"
    using assms(2) by (intro proactive_no_channel)
  have branch_no_url: "?found = Some c \<Longrightarrow> findServiceUrl bh (chan_id c) = '''' \<Longrightarrow>
      proactive tr bh (channel contextData) text atts ms =
        (None,
         \<lparr>eff_log = [Log_info SendProactiveMessage, Log_info (TargetChannelInfo (Some c)),
                     Log_info (ServiceUrl ''''), Log_error (ServiceUrlDoesNotExist c)],
          eff_calls = [], eff_unhandled = []\<rparr>)" for c
    using assms(2) by (intro proactive_no_url)
  have found: "?found = (if chan_id (channel contextData) = '''' \<and> chan_name (channel contextData) \<noteq> ''''
                  then findChannelByName bh (chan_name (channel contextData))
                  else findChannelById bh (chan_id (channel contextData)))"
    by (simp add: findChannel_def)
  show ?thesis
    unfolding Let_def found [symmetric]
    using none no_url url branch_none branch_no_url by simp
qed

text \<open>Claim C3, at three sends of one text: to an unknown channel id, to a channel known
  by name whose service URL is not cached, and to a channel known by name with a cached
  service URL.\<close>

theorem channel_resolution_witness:
  "liveTurn to_C9 = None \<and> liveTurn to_ops = None \<and>
   0 < length (getServiceUrl handler_seen) \<and> 0 < length (getServiceUrl handler_partial) \<and>
   [plain ''hi''] \<noteq> [] \<and>
   findChannelById handler_seen ''C9'' = None \<and>
   log (send example_platform accepting handler_seen to_C9 [plain ''hi''] store_named) =
     [Log_start ''send'', Log_info SendProactiveMessage, Log_info (TargetChannelInfo None),
      Log_error (ChannelDoesNotExist \<lparr>chan_id = ''C9'', chan_name = ''''\<rparr>), Log_end ''send''] \<and>
   calls (send example_platform accepting handler_seen to_C9 [plain ''hi''] store_named) = [] \<and>
   findChannelByName handler_partial ''ops'' = Some ops \<and>
   findServiceUrl handler_partial ''C1'' = '''' \<and>
   log (send example_platform accepting handler_partial to_ops [plain ''hi''] store_named) =
     [Log_start ''send'', Log_info SendProactiveMessage,
      Log_info (TargetChannelInfo (Some ops)), Log_info (ServiceUrl ''''),
      Log_error (ServiceUrlDoesNotExist ops), Log_end ''send''] \<and>
   calls (send example_platform accepting handler_partial to_ops [plain ''hi''] store_named) = [] \<and>
   findChannelByName handler_seen ''ops'' = Some ops \<and>
   findServiceUrl handler_seen ''C1'' = ''https://svc/a'' \<and>
   hd (calls (send example_platform accepting handler_seen to_ops [plain ''hi''] store_named)) =
     CreateConnectorClient ''https://svc/a''"
  using channel_resolution [of to_C9 handler_seen "[plain ''hi'']" example_platform accepting
      store_named]
    channel_resolution [of to_ops handler_partial "[plain ''hi'']" example_platform accepting
      store_named]
    channel_resolution [of to_ops handler_seen "[plain ''hi'']" example_platform accepting
      store_named]
  by (auto simp: Let_def liveTurn_def to_C9_def to_ops_def handler_seen_def handler_partial_def
      handler_of_def ops_def general_def logPart_def plain_def)

subsection \<open>C4: resolution of the mentions\<close>

text \<open>
  Claim C4, as stated: a mention with an empty id and a non-empty name has its id filled
  by a lookup by name, and a mention whose id and name end up non-empty is in the mention
  set of the composed unit. Neither holds. The test of the source is on the trimmed
  strings: a name of one space is not empty, but it is blank, so the lookup is by the
  (empty) id, the id stays empty and the mention is dropped, although the Directory knows
  a channel of that name. And the unit that is sent on a live turn has no mentions at all:
  the mention whose object gets the id \<open>C2\<close> is in the mention list, and the unit handed
  to the one transport call has no entities.
\<close>

theorem mention_resolution_counterexample:
  "chan_id (store_blank 0) = '''' \<and> chan_name (store_blank 0) \<noteq> '''' \<and>
   findChannelByName handler_blank (chan_name (store_blank 0)) =
     Some \<lparr>chan_id = ''C3'', chan_name = '' ''\<rparr> \<and>
   msg_mentions (mentioning ''hi'') = Some [\<lparr>mentioned = 0\<rparr>, \<lparr>mentioned = 1\<rparr>] \<and>
   objects (compose example_platform handler_blank [mentioning ''hi''] store_blank) 0 =
     \<lparr>chan_id = '''', chan_name = '' ''\<rparr> \<and>
   mentions (compose example_platform handler_blank [mentioning ''hi''] store_blank) = [] \<and>
   objects (compose example_platform handler_seen [mentioning ''hi''] store_named) 0 =
     \<lparr>chan_id = ''C2'', chan_name = ''general''\<rparr> \<and>
   mentions (compose example_platform handler_seen [mentioning ''hi''] store_named) =
     [\<lparr>mentioned = 0\<rparr>] \<and>
   calls (send example_platform accepting handler_seen in_turn [mentioning ''hi''] store_named) =
     [ContinueConversation (getConversationReference (Inl ''T0''))
        (Some \<lparr>act_text = Some ''\<newline>hi'', act_attachments = None, act_entities = None\<rparr>)]"
proof -
  have blank: "chan_id (store_blank 0) = '''' \<and> chan_name (store_blank 0) \<noteq> '''' \<and>
      findChannelByName handler_blank (chan_name (store_blank 0)) =
        Some \<lparr>chan_id = ''C3'', chan_name = '' ''\<rparr> \<and>
      msg_mentions (mentioning ''hi'') = Some [\<lparr>mentioned = 0\<rparr>, \<lparr>mentioned = 1\<rparr>] \<and>
      objects (compose example_platform handler_blank [mentioning ''hi''] store_blank) 0 =
        \<lparr>chan_id = '''', chan_name = '' ''\<rparr> \<and>
      mentions (compose example_platform handler_blank [mentioning ''hi''] store_blank) = []"
    by (simp add: compose_objects allMentions_def mentionsOf_def mentioning_def resolveMention_eq
        initial_def filled_def complete_def store_blank_def trim_def isWhiteSpace_def
        handler_blank_def handler_of_def)
  let ?s = "compose example_platform handler_seen [mentioning ''hi''] store_named :: string locals"
  have resolved: "objects ?s 0 = \<lparr>chan_id = ''C2'', chan_name = ''general''\<rparr>"
    "mentions ?s = [\<lparr>mentioned = 0\<rparr>]"
    by (simp_all add: compose_objects allMentions_def mentionsOf_def mentioning_def
        resolveMention_eq initial_def filled_def complete_def store_named_def trim_def
        isWhiteSpace_def handler_seen_def handler_of_def ops_def general_def)
  have composed: "textMessage ?s = ''\<newline>hi''" "attachments ?s = []"
    by (simp_all add: compose_text textPart_def cardPart_def mentioning_def example_platform_def)
  have "liveTurn in_turn = Some ''T0''"
    by (simp add: liveTurn_def in_turn_def)
  then have "deliver accepting handler_seen in_turn ?s =
      conversation accepting ''T0''
        \<lparr>act_text = Some ''\<newline>hi'', act_attachments = None, act_entities = None\<rparr>"
    by (intro deliver_conversation)
       (simp_all add: composed getActivity_def MessageFactory_text_def)
  then have "calls (send example_platform accepting handler_seen in_turn [mentioning ''hi'']
        store_named) =
      [ContinueConversation (getConversationReference (Inl ''T0''))
         (Some \<lparr>act_text = Some ''\<newline>hi'', act_attachments = None, act_entities = None\<rparr>)]"
    by (simp add: send_fields conversation_def Let_def)
  with blank resolved show ?thesis
    by simp
qed

text \<open>
  Claim C4, amended. For every mention of a send request, in the state in which the loop
  reaches it: if its id is blank (empty once trimmed) and its name is not blank, the
  Directory is looked up by name and, when a channel is found, the id becomes the id of
  that channel; otherwise (in particular when the id is set and the name is empty) the
  Directory is looked up by id and, when a channel is found, the name becomes the name of
  that channel; no other object is written. The mention is appended to the mention list if
  and only if its id and its name are then both different from the empty string, and is
  otherwise dropped with no log entry; the list only grows from there to the end of the
  loop. The mention list is the entities of the first and of the rest unit of the
  proactive branch; the unit sent on a live turn has no entities.
\<close>

theorem mention_resolution:
  assumes "messages = earlier @ message # later"
    and "msg_mentions message = Some (before @ mention # after)"
  shows
    "let s = resolveMentions bh before
               (appendPart pf message (processMessages pf bh earlier (initial st)));
         m = objects s (mentioned mention);
         s' = resolveMention bh mention s;
         m' = objects s' (mentioned mention);
         c = compose pf bh messages st
     in c = processMessages pf bh later (resolveMentions bh after s') \<and>
        (trim (chan_id m) = '''' \<and> trim (chan_name m) \<noteq> '''' \<longrightarrow>
           m' = (case findChannelByName bh (chan_name m) of
                   None \<Rightarrow> m
                 | Some channelInfo \<Rightarrow> m\<lparr>chan_id := chan_id channelInfo\<rparr>)) \<and>
        (\<not> (trim (chan_id m) = '''' \<and> trim (chan_name m) \<noteq> '''') \<longrightarrow>
           m' = (case findChannelById bh (chan_id m) of
                   None \<Rightarrow> m
                 | Some channelInfo \<Rightarrow> m\<lparr>chan_name := chan_name channelInfo\<rparr>)) \<and>
        (chan_id m \<noteq> '''' \<and> chan_name m = '''' \<longrightarrow>
           m' = (case findChannelById bh (chan_id m) of
                   None \<Rightarrow> m
                 | Some channelInfo \<Rightarrow> m\<lparr>chan_name := chan_name channelInfo\<rparr>)) \<and>
        (\<forall>a. a \<noteq> mentioned mention \<longrightarrow> objects s' a = objects s a) \<and>
        mentions s' = (if chan_id m' \<noteq> '''' \<and> chan_name m' \<noteq> ''''
                       then mentions s @ [mention] else mentions s) \<and>
        logged s' = logged s \<and>
        (\<exists>more. mentions c = mentions s' @ more) \<and>
        (\<forall>unit. firstActivity (textMessage c) (attachments c) (mentions c) = Some unit \<longrightarrow>
           act_entities unit = Some (mentions c)) \<and>
        (\<forall>unit. restActivity (textMessage c) (attachments c) (mentions c) = Some unit \<longrightarrow>
           act_entities unit = Some (mentions c)) \<and>
        (\<forall>unit. getActivity (textMessage c) (attachments c) = Some unit \<longrightarrow>
           act_entities unit = None)"
proof -
  let ?s = "resolveMentions bh before
      (appendPart pf message (processMessages pf bh earlier (initial st)))"
  let ?s' = "resolveMention bh mention ?s"
  let ?c = "compose pf bh messages st"
  let ?m = "objects ?s (mentioned mention)"
  have split: "?c = processMessages pf bh later (resolveMentions bh after ?s')"
    by (rule compose_split [OF assms])
  have after: "objects ?s' (mentioned mention) = filled bh ?m"
    by (simp add: resolveMention_eq)
  have by_name: "filled bh ?m = (case findChannelByName bh (chan_name ?m) of
                   None \<Rightarrow> ?m
                 | Some channelInfo \<Rightarrow> ?m\<lparr>chan_id := chan_id channelInfo\<rparr>)"
    if "trim (chan_id ?m) = '''' \<and> trim (chan_name ?m) \<noteq> ''''"
    using that by (simp add: filled_def)
  have by_id: "filled bh ?m = (case findChannelById bh (chan_id ?m) of
                   None \<Rightarrow> ?m
                 | Some channelInfo \<Rightarrow> ?m\<lparr>chan_name := chan_name channelInfo\<rparr>)"
    if "\<not> (trim (chan_id ?m) = '''' \<and> trim (chan_name ?m) \<noteq> '''')"
    unfolding filled_def using that by (rule if_not_P)
  have set_only: "\<not> (trim (chan_id ?m) = '''' \<and> trim (chan_name ?m) \<noteq> '''')"
    if "chan_id ?m \<noteq> '''' \<and> chan_name ?m = ''''"
    using that by (simp add: trim_Nil)
  have others: "\<forall>a. a \<noteq> mentioned mention \<longrightarrow> objects ?s' a = objects ?s a"
    by (simp add: resolveMention_eq)
  have kept: "mentions ?s' =
      (if chan_id (objects ?s' (mentioned mention)) \<noteq> '''' \<and>
          chan_name (objects ?s' (mentioned mention)) \<noteq> ''''
       then mentions ?s @ [mention] else mentions ?s)"
    by (simp add: resolveMention_eq complete_def)
  have silent: "logged ?s' = logged ?s"
    by (simp add: resolveMention_eq)
  have grows: "\<exists>more. mentions ?c = mentions ?s' @ more"
  proof -
    from resolveMentions_prefix [of bh after ?s']
    obtain m1 where m1: "mentions (resolveMentions bh after ?s') = mentions ?s' @ m1"
      by blast
    from processMessages_prefix [of pf bh later "resolveMentions bh after ?s'"]
    obtain m2 where "mentions (processMessages pf bh later (resolveMentions bh after ?s')) =
        mentions (resolveMentions bh after ?s') @ m2"
      by blast
    with m1 split show ?thesis
      by simp
  qed
  have first: "\<forall>unit. firstActivity (textMessage ?c) (attachments ?c) (mentions ?c) = Some unit
      \<longrightarrow> act_entities unit = Some (mentions ?c)"
    by (auto simp: firstActivity_def MessageFactory_text_def MessageFactory_attachment_def
        split: if_splits list.splits)
  have rest: "\<forall>unit. restActivity (textMessage ?c) (attachments ?c) (mentions ?c) = Some unit
      \<longrightarrow> act_entities unit = Some (mentions ?c)"
    by (auto simp: restActivity_def split: if_splits)
  have live: "\<forall>unit. getActivity (textMessage ?c) (attachments ?c) = Some unit
      \<longrightarrow> act_entities unit = None"
    by (auto simp: getActivity_def MessageFactory_text_def split: if_splits)
  show ?thesis
    unfolding Let_def after
  proof (intro conjI impI, goal_cases)
    case 1
    show ?case by (rule split)
  next
    case 2
    then show ?case by (rule by_name)
  next
    case 3
    then show ?case by (rule by_id)
  next
    case 4
    from set_only [OF 4] show ?case by (rule by_id)
  next
    case 5
    show ?case by (rule others)
  next
    case 6
    from kept show ?case by (simp only: after)
  next
    case 7
    show ?case by (rule silent)
  next
    case 8
    show ?case by (rule grows)
  next
    case 9
    show ?case by (rule first)
  next
    case 10
    show ?case by (rule rest)
  next
    case 11
    show ?case by (rule live)
  qed
qed

text \<open>
  Claim C4, amended, at the request with two mentions, each in the state in which the
  loop reaches it: the first has the name \<open>general\<close> only and gets the id \<open>C2\<close>; the
  second has the id \<open>C9\<close> only, which no channel has, and is dropped.
\<close>

theorem mention_resolution_witness:
  "[mentioning ''hi''] = [] @ mentioning ''hi'' # [] \<and>
   msg_mentions (mentioning ''hi'') = Some ([] @ \<lparr>mentioned = 0\<rparr> # [\<lparr>mentioned = Suc 0\<rparr>]) \<and>
   msg_mentions (mentioning ''hi'') = Some ([\<lparr>mentioned = 0\<rparr>] @ \<lparr>mentioned = Suc 0\<rparr> # []) \<and>
   (let s = appendPart example_platform (mentioning ''hi'') (initial store_named) :: string locals;
        s' = resolveMention handler_seen \<lparr>mentioned = 0\<rparr> s;
        s'' = resolveMention handler_seen \<lparr>mentioned = Suc 0\<rparr> s'
    in objects s 0 = \<lparr>chan_id = '''', chan_name = ''general''\<rparr> \<and>
       trim '''' = '''' \<and> trim ''general'' \<noteq> '''' \<and>
       findChannelByName handler_seen ''general'' =
         Some \<lparr>chan_id = ''C2'', chan_name = ''general''\<rparr> \<and>
       objects s' 0 = \<lparr>chan_id = ''C2'', chan_name = ''general''\<rparr> \<and>
       mentions s' = [\<lparr>mentioned = 0\<rparr>] \<and>
       objects s' (Suc 0) = \<lparr>chan_id = ''C9'', chan_name = ''''\<rparr> \<and>
       findChannelById handler_seen ''C9'' = None \<and>
       objects s'' (Suc 0) = \<lparr>chan_id = ''C9'', chan_name = ''''\<rparr> \<and>
       mentions s'' = [\<lparr>mentioned = 0\<rparr>] \<and>
       compose example_platform handler_seen [mentioning ''hi''] store_named = s'')"
proof -
  have split: "[mentioning ''hi''] = [] @ mentioning ''hi'' # []"
    "msg_mentions (mentioning ''hi'') = Some ([] @ \<lparr>mentioned = 0\<rparr> # [\<lparr>mentioned = Suc 0\<rparr>])"
    "msg_mentions (mentioning ''hi'') = Some ([\<lparr>mentioned = 0\<rparr>] @ \<lparr>mentioned = Suc 0\<rparr> # [])"
    by (simp_all add: mentioning_def)
  have blank: "trim '''' = ''''" "trim ''general'' \<noteq> ''''" "trim ''C9'' \<noteq> ''''"
    by (simp_all add: trim_def isWhiteSpace_def)
  have lookups: "findChannelByName handler_seen ''general'' =
      Some \<lparr>chan_id = ''C2'', chan_name = ''general''\<rparr>"
    "findChannelById handler_seen ''C9'' = None"
    by (simp_all add: handler_seen_def handler_of_def ops_def general_def)
  have start: "objects (appendPart example_platform (mentioning ''hi'') (initial store_named)
        :: string locals) = store_named"
    "mentions (appendPart example_platform (mentioning ''hi'') (initial store_named)
        :: string locals) = []"
    by (simp_all add: appendPart_frame) (simp_all add: initial_def)
  let ?s = "appendPart example_platform (mentioning ''hi'') (initial store_named) :: string locals"
  let ?s' = "resolveMention handler_seen \<lparr>mentioned = 0\<rparr> ?s"
  let ?s'' = "resolveMention handler_seen \<lparr>mentioned = Suc 0\<rparr> ?s'"
  have s0: "objects ?s 0 = \<lparr>chan_id = '''', chan_name = ''general''\<rparr>"
    "objects ?s (Suc 0) = \<lparr>chan_id = ''C9'', chan_name = ''''\<rparr>"
    by (simp_all add: appendPart_frame initial_def store_named_def)
  have first: "objects ?s 0 = \<lparr>chan_id = '''', chan_name = ''general''\<rparr>"
    "objects ?s' 0 = \<lparr>chan_id = ''C2'', chan_name = ''general''\<rparr>"
    "mentions ?s' = [\<lparr>mentioned = 0\<rparr>]"
    "objects ?s' (Suc 0) = \<lparr>chan_id = ''C9'', chan_name = ''''\<rparr>"
    by (simp_all add: resolveMention_eq [of handler_seen "\<lparr>mentioned = 0\<rparr>"] s0 start(2)
        filled_def complete_def blank lookups)
  have second: "objects ?s'' (Suc 0) = \<lparr>chan_id = ''C9'', chan_name = ''''\<rparr>"
    "mentions ?s'' = [\<lparr>mentioned = 0\<rparr>]"
    by (simp_all add: resolveMention_eq [of handler_seen "\<lparr>mentioned = Suc 0\<rparr>"] first
        filled_def complete_def blank lookups)
  from mention_resolution [OF split(1) split(3), of handler_seen example_platform store_named,
      unfolded Let_def, THEN conjunct1]
  have "compose example_platform handler_seen [mentioning ''hi''] store_named = ?s''"
    by simp
  with split first second blank lookups show ?thesis
    unfolding Let_def by blast
qed

subsection \<open>C5: construction of the unit\<close>

text \<open>
  Claim C5. For every sequence of message parts the unit (the variable
  \<^verbatim>\<open>activity\<close>) is built by cases on the accumulated text and attachments: a non-empty
  text without attachments gives the unit of the text alone; attachments with an empty
  text give the unit of the attachments alone; both give the one combined unit; neither
  gives the empty result, and then \<^verbatim>\<open>send\<close> logs the warning, and nothing else between
  its start and end entries, and makes no transport call. When the context data holds a
  live turn, that one unit is what the single transport call delivers.
\<close>

theorem unit_construction:
  "let s = compose pf bh messages st;
       text = textMessage s;
       atts = attachments s;
       r = send pf tr bh contextData messages st
   in (text \<noteq> '''' \<and> atts = [] \<longrightarrow>
         getActivity text atts =
           Some \<lparr>act_text = Some text, act_attachments = None, act_entities = None\<rparr>) \<and>
      (text = '''' \<and> atts \<noteq> [] \<longrightarrow>
         getActivity text atts =
           Some \<lparr>act_text = None, act_attachments = Some atts, act_entities = None\<rparr>) \<and>
      (text \<noteq> '''' \<and> atts \<noteq> [] \<longrightarrow>
         getActivity text atts =
           Some \<lparr>act_text = Some text, act_attachments = Some atts, act_entities = None\<rparr>) \<and>
      (text = '''' \<and> atts = [] \<longrightarrow>
         getActivity text atts = None \<and> calls r = [] \<and> unhandled r = [] \<and>
         log r = [Log_start ''send'', Log_warn MessageEmpty, Log_end ''send'']) \<and>
      (\<forall>tc unit. liveTurn contextData = Some tc \<and> getActivity text atts = Some unit \<longrightarrow>
         calls r = [ContinueConversation (getConversationReference (Inl tc)) (Some unit)])"
proof -
  let ?s = "compose pf bh messages st"
  let ?r = "send pf tr bh contextData messages st"
  have neither: "calls ?r = [] \<and> unhandled ?r = [] \<and>
      log ?r = [Log_start ''send'', Log_warn MessageEmpty, Log_end ''send'']"
    if "textMessage ?s = ''''" "attachments ?s = []"
  proof -
    from that compose_nonempty [of messages pf bh st] have "messages = []" by blast
    then show ?thesis by (simp add: send_fields deliver_empty)
  qed
  have live: "calls ?r = [ContinueConversation (getConversationReference (Inl tc)) (Some unit)]"
    if "liveTurn contextData = Some tc" "getActivity (textMessage ?s) (attachments ?s) = Some unit"
    for tc unit
    using deliver_conversation [OF that(2) that(1), of tr bh]
    by (simp add: send_fields conversation_def Let_def)
  show ?thesis
    unfolding Let_def
    using neither live by (simp add: getActivity_def MessageFactory_text_def)
qed

text \<open>
  Claim C5, at four requests sent on the live turn \<open>T0\<close>: a text, a card, a text with a
  card, and the empty request.
\<close>

theorem unit_construction_witness:
  "(let s = compose example_platform handler_seen [plain ''hi''] store_named
    in textMessage s = ''\<newline>hi'' \<and> attachments s = [] \<and>
       calls (send example_platform accepting handler_seen in_turn [plain ''hi''] store_named) =
         [ContinueConversation (getConversationReference (Inl ''T0''))
            (Some \<lparr>act_text = Some ''\<newline>hi'', act_attachments = None, act_entities = None\<rparr>)]) \<and>
   (let s = compose example_platform handler_seen [adaptive ''A''] store_named
    in textMessage s = '''' \<and> attachments s = [''A''] \<and>
       calls (send example_platform accepting handler_seen in_turn [adaptive ''A''] store_named) =
         [ContinueConversation (getConversationReference (Inl ''T0''))
            (Some \<lparr>act_text = None, act_attachments = Some [''A''], act_entities = None\<rparr>)]) \<and>
   (let s = compose example_platform handler_seen [plain ''hi'', adaptive ''A''] store_named
    in textMessage s = ''\<newline>hi'' \<and> attachments s = [''A''] \<and>
       calls (send example_platform accepting handler_seen in_turn [plain ''hi'', adaptive ''A'']
                store_named) =
         [ContinueConversation (getConversationReference (Inl ''T0''))
            (Some \<lparr>act_text = Some ''\<newline>hi'', act_attachments = Some [''A''],
                   act_entities = None\<rparr>)]) \<and>
   (let s = compose example_platform handler_seen ([] :: string IMessage list) store_named
    in textMessage s = '''' \<and> attachments s = ([] :: string list) \<and>
       log (send example_platform accepting handler_seen in_turn [] store_named) =
         [Log_start ''send'', Log_warn MessageEmpty, Log_end ''send''])"
  using unit_construction [of example_platform handler_seen "[plain ''hi'']" store_named
      accepting in_turn]
    unit_construction [of example_platform handler_seen "[adaptive ''A'']" store_named
      accepting in_turn]
    unit_construction [of example_platform handler_seen "[plain ''hi'', adaptive ''A'']" store_named
      accepting in_turn]
    unit_construction [of example_platform handler_seen "[]" store_named accepting in_turn]
  by (simp add: Let_def compose_text textPart_def cardPart_def plain_def adaptive_def
      example_platform_def liveTurn_def in_turn_def)

subsection \<open>C6: accumulation of the text\<close>

text \<open>
  Claim C6, as stated: the text parts are joined by newlines, so that the texts \<open>a\<close> and
  \<open>b\<close> compose to \<open>a\<close>, newline, \<open>b\<close>. The loop starts from the empty string and puts a
  newline before every part, the first one too: the two texts compose to newline, \<open>a\<close>,
  newline, \<open>b\<close>.
\<close>

theorem text_accumulation_counterexample:
  "textMessage (compose example_platform handler_seen [plain ''a'', plain ''b''] store_named)
     = ''\<newline>a\<newline>b'' \<and>
   textMessage (compose example_platform handler_seen [plain ''a'', plain ''b''] store_named)
     \<noteq> ''a\<newline>b''"
  by (simp add: compose_text textPart_def plain_def example_platform_def)

text \<open>
  Claim C6, amended. For every send request the text is the concatenation, in the order
  of the request, of one piece per part: for a plain text a newline followed by the text,
  for a part of an unsupported type a newline followed by the JSON serialisation of its
  payload (it is not dropped), and nothing for a card. The text depends on the parts
  alone, not on the handler or on the store.
\<close>

theorem text_accumulation:
  "textMessage (compose pf bh messages st) =
     concat (map (\<lambda>message.
                    case msg_type message of
                      PLAIN_TEXT \<Rightarrow> ''\<newline>'' @ templateString pf (msg_message message)
                    | MSTEAMS_ADAPTIVE_CARD \<Rightarrow> ''''
                    | OTHER t \<Rightarrow> ''\<newline>'' @ JSON_stringify pf (msg_message message))
            messages)"
proof -
  have "textPart pf = (\<lambda>message.
                    case msg_type message of
                      PLAIN_TEXT \<Rightarrow> ''\<newline>'' @ templateString pf (msg_message message)
                    | MSTEAMS_ADAPTIVE_CARD \<Rightarrow> ''''
                    | OTHER t \<Rightarrow> ''\<newline>'' @ JSON_stringify pf (msg_message message))"
    by (rule ext) (simp add: textPart_def)
  then show ?thesis
    by (simp add: compose_text)
qed

subsection \<open>C7: the second transport call\<close>

text \<open>
  Claim C7: after the push that creates the conversation, a second call resumes it if and
  only if there is a rest unit, and otherwise one call is made. The source calls
  \<^verbatim>\<open>continueConversation\<close> whether or not \<^verbatim>\<open>restActivity\<close> was set: for one text sent to
  the channel \<open>ops\<close> there is no rest unit, and the conversation is still continued, with
  null handed to \<^verbatim>\<open>sendActivity\<close>.
\<close>

theorem proactive_text_only_calls:
  "restActivity ''\<newline>hi'' ([] :: string list) [] = None \<and>
   calls (send example_platform accepting handler_seen to_ops [plain ''hi''] store_named) =
     [CreateConnectorClient ''https://svc/a'',
      CreateConversation
        \<lparr>cp_isGroup = True, channelData_channel = ops,
         cp_activity =
           Some \<lparr>act_text = Some ''\<newline>hi'', act_attachments = None,
                  act_entities = Some []\<rparr>\<rparr>,
      ContinueConversation
        \<lparr>ref_of =
           Inr (Some \<lparr>act_text = Some ''\<newline>hi'', act_attachments = None,
                       act_entities = Some []\<rparr>),
         ref_conversation =
           Some \<lparr>ca_isGroup = True, ca_id = ''T1'', conversationType = ''channel''\<rparr>,
         ref_serviceUrl = Some ''https://svc/a''\<rparr>
        None]"
proof -
  have gates: "liveTurn to_ops = None" "0 < length (getServiceUrl handler_seen)"
    "findChannel handler_seen (channel to_ops) = Some ops"
    "findServiceUrl handler_seen (chan_id ops) \<noteq> ''''"
    "findServiceUrl handler_seen (chan_id ops) = ''https://svc/a''"
    by (simp_all add: liveTurn_def to_ops_def handler_seen_def handler_of_def findChannel_def
        ops_def general_def)
  have composed: "textMessage (compose example_platform handler_seen [plain ''hi''] store_named)
      = ''\<newline>hi''"
    "attachments (compose example_platform handler_seen [plain ''hi''] store_named) = []"
    "mentions (compose example_platform handler_seen [plain ''hi''] store_named) = []"
    by (simp_all add: compose_text textPart_def cardPart_def compose_objects allMentions_def
        mentionsOf_def plain_def example_platform_def initial_def)
  have "deliver accepting handler_seen to_ops
          (compose example_platform handler_seen [plain ''hi''] store_named :: string locals) =
        proactive accepting handler_seen (channel to_ops) ''\<newline>hi'' [] []"
    using deliver_proactive_compose [of "[plain ''hi'']" to_ops accepting handler_seen
        example_platform store_named]
    by (simp add: gates composed)
  with proactive_push [OF gates(2-4), of accepting "''\<newline>hi''" "[] :: string list" "[]"]
  show ?thesis
    by (simp add: send_fields gates(5) createAndContinue_def accepting_def firstActivity_def
        restActivity_def MessageFactory_text_def getConversationReference_def Let_def)
qed

subsection \<open>C8: what the caller learns of a refusal\<close>

text \<open>
  Claim C8, as stated: each refusal is logged and also returned to the caller as an error
  result. \<^verbatim>\<open>send\<close> returns nothing: the promise of a refused send is fulfilled, exactly
  as that of a send that was delivered, and the refusal is in the log alone.
\<close>

theorem refusal_counterexample:
  "liveTurn to_ops = None \<and> length (getServiceUrl handler_fresh) = 0 \<and>
   Log_error CachedServiceUrlEmpty
     \<in> set (log (send example_platform accepting handler_fresh to_ops [plain ''hi''] store_named)) \<and>
   settled (send example_platform accepting handler_fresh to_ops [plain ''hi''] store_named) = Inr () \<and>
   settled (send example_platform accepting handler_fresh to_ops [plain ''hi''] store_named) =
     settled (send example_platform accepting handler_seen to_ops [plain ''hi''] store_named)"
  by (simp add: send_fields send_cache_empty liveTurn_def to_ops_def handler_fresh_def
      handler_of_def)

text \<open>
  Claim C8, amended. For every proactive send of at least one part, each of the three
  refusals ends the send: no transport call is made, then or later; the refusal is logged
  as one error entry, the last before the end entry; and the promise is fulfilled with no
  value, so that the log is the only report of the refusal.
\<close>

theorem refusal_reported_by_log:
  assumes "liveTurn contextData = None" and "messages \<noteq> []"
  shows
    "let r = send pf tr bh contextData messages st;
         refused = (\<lambda>entries.
           \<lparr>settled = Inr (),
            log = Log_start ''send'' # concat (map logPart messages)
                  @ [Log_info SendProactiveMessage] @ entries @ [Log_end ''send''],
            calls = [], unhandled = [], objects_after = objects (compose pf bh messages st)\<rparr>)
     in (length (getServiceUrl bh) = 0 \<longrightarrow> r = refused [Log_error CachedServiceUrlEmpty]) \<and>
        (0 < length (getServiceUrl bh) \<and> findChannel bh (channel contextData) = None \<longrightarrow>
           r = refused [Log_info (TargetChannelInfo None),
                        Log_error (ChannelDoesNotExist (channel contextData))]) \<and>
        (\<forall>channelInfo.
           0 < length (getServiceUrl bh) \<and>
           findChannel bh (channel contextData) = Some channelInfo \<and>
           findServiceUrl bh (chan_id channelInfo) = '''' \<longrightarrow>
           r = refused [Log_info (TargetChannelInfo (Some channelInfo)),
                        Log_info (ServiceUrl ''''),
                        Log_error (ServiceUrlDoesNotExist channelInfo)])"
  unfolding Let_def
  using assms
  by (simp add: send_cache_empty send_no_channel send_no_url)

text \<open>Claim C8, amended, at the three refusals of a send of one card.\<close>

theorem refusal_reported_by_log_witness:
  "liveTurn to_ops = None \<and> liveTurn to_C9 = None \<and> [adaptive ''A''] \<noteq> [] \<and>
   length (getServiceUrl handler_fresh) = 0 \<and>
   send example_platform accepting handler_fresh to_ops [adaptive ''A''] store_named =
     \<lparr>settled = Inr (),
      log = [Log_start ''send'', Log_info SendProactiveMessage,
             Log_error CachedServiceUrlEmpty, Log_end ''send''],
      calls = [], unhandled = [], objects_after = store_named\<rparr> \<and>
   0 < length (getServiceUrl handler_seen) \<and>
   findChannel handler_seen (channel to_C9) = None \<and>
   send example_platform accepting handler_seen to_C9 [adaptive ''A''] store_named =
     \<lparr>settled = Inr (),
      log = [Log_start ''send'', Log_info SendProactiveMessage,
             Log_info (TargetChannelInfo None),
             Log_error (ChannelDoesNotExist (channel to_C9)), Log_end ''send''],
      calls = [], unhandled = [], objects_after = store_named\<rparr> \<and>
   0 < length (getServiceUrl handler_partial) \<and>
   findChannel handler_partial (channel to_ops) = Some ops \<and>
   findServiceUrl handler_partial (chan_id ops) = '''' \<and>
   send example_platform accepting handler_partial to_ops [adaptive ''A''] store_named =
     \<lparr>settled = Inr (),
      log = [Log_start ''send'', Log_info SendProactiveMessage,
             Log_info (TargetChannelInfo (Some ops)), Log_info (ServiceUrl ''''),
             Log_error (ServiceUrlDoesNotExist ops), Log_end ''send''],
      calls = [], unhandled = [], objects_after = store_named\<rparr>"
  using refusal_reported_by_log [of to_ops "[adaptive ''A'']" example_platform accepting
      handler_fresh store_named]
    refusal_reported_by_log [of to_C9 "[adaptive ''A'']" example_platform accepting
      handler_seen store_named]
    refusal_reported_by_log [of to_ops "[adaptive ''A'']" example_platform accepting
      handler_partial store_named]
  by (simp add: Let_def liveTurn_def to_C9_def to_ops_def handler_seen_def handler_partial_def
      handler_fresh_def handler_of_def ops_def general_def logPart_def adaptive_def findChannel_def
      compose_def initial_def processMessage_def appendPart_def)

subsection \<open>C9: what composition writes\<close>

text \<open>
  Claim C9, as stated: composition leaves its inputs unchanged, the caller's mention
  objects included. The loop assigns the id it finds to the caller's object: after the
  send, the object at 0, which had a name only, has the id \<open>C2\<close>.
\<close>

theorem composition_writes_counterexample:
  "msg_mentions (mentioning ''hi'') = Some [\<lparr>mentioned = 0\<rparr>, \<lparr>mentioned = 1\<rparr>] \<and>
   store_named 0 = \<lparr>chan_id = '''', chan_name = ''general''\<rparr> \<and>
   objects_after (send example_platform accepting handler_seen in_turn [mentioning ''hi'']
                    store_named) 0 =
     \<lparr>chan_id = ''C2'', chan_name = ''general''\<rparr> \<and>
   objects_after (send example_platform accepting handler_seen in_turn [mentioning ''hi'']
                    store_named) \<noteq> store_named"
proof -
  have after: "objects_after (send example_platform accepting handler_seen in_turn
      [mentioning ''hi''] store_named) 0 = \<lparr>chan_id = ''C2'', chan_name = ''general''\<rparr>"
    by (simp add: send_fields compose_objects allMentions_def mentionsOf_def mentioning_def
        resolveMention_eq initial_def filled_def store_named_def trim_def isWhiteSpace_def
        handler_seen_def handler_of_def ops_def general_def)
  have before: "store_named 0 = \<lparr>chan_id = '''', chan_name = ''general''\<rparr>"
    by (simp add: store_named_def)
  from after before
  have "objects_after (send example_platform accepting handler_seen in_turn
      [mentioning ''hi''] store_named) 0 \<noteq> store_named 0"
    by simp
  then have "objects_after (send example_platform accepting handler_seen in_turn
      [mentioning ''hi''] store_named) \<noteq> store_named"
    by metis
  with after before show ?thesis
    by (simp add: mentioning_def)
qed

text \<open>
  Claim C9, amended. Composition is a function of the request, the Directory and the
  caller's objects, and the Directory and the caches are only read. It writes to no object
  but those the mentions of the request refer to; an id that differs from the caller's is
  an id the Directory returned for a lookup by name, and a name that differs is a name the
  Directory returned for a lookup by id. The caller's objects after \<^verbatim>\<open>send\<close> are those
  composition left, whatever the transport does.
\<close>

theorem composition_frame:
  "let s = compose pf bh messages st
   in (\<forall>a. a \<notin> mentioned ` set (allMentions messages) \<longrightarrow> objects s a = st a) \<and>
      (\<forall>a. chan_id (objects s a) = chan_id (st a) \<or>
           (\<exists>n c. findChannelByName bh n = Some c \<and> chan_id (objects s a) = chan_id c)) \<and>
      (\<forall>a. chan_name (objects s a) = chan_name (st a) \<or>
           (\<exists>i c. findChannelById bh i = Some c \<and> chan_name (objects s a) = chan_name c)) \<and>
      objects_after (send pf tr bh contextData messages st) = objects s"
proof -
  have frame: "objects (compose pf bh messages st) a = st a"
    if "a \<notin> mentioned ` set (allMentions messages)" for a
    using resolveMentions_objects_other [OF that, of bh "initial st"]
    by (simp add: compose_objects) (simp add: initial_def)
  have start: "objects (initial st) = st"
    by (simp add: initial_def)
  have ids: "\<forall>a. chan_id (objects (compose pf bh messages st) a) = chan_id (st a) \<or>
              (\<exists>n c. findChannelByName bh n = Some c \<and>
                 chan_id (objects (compose pf bh messages st) a) = chan_id c)"
    using resolveMentions_id_provenance [of "initial st" st bh "allMentions messages"]
    by (simp add: compose_objects start)
  have names: "\<forall>a. chan_name (objects (compose pf bh messages st) a) = chan_name (st a) \<or>
              (\<exists>i c. findChannelById bh i = Some c \<and>
                 chan_name (objects (compose pf bh messages st) a) = chan_name c)"
    using resolveMentions_name_provenance [of "initial st" st bh "allMentions messages"]
    by (simp add: compose_objects start)
  from frame ids names show ?thesis
    by (simp add: Let_def send_fields)
qed

text \<open>Claim C9, amended, at the request with mentions at 0 and 1: the object at 2 is as
  the caller left it.\<close>

theorem composition_frame_witness:
  "allMentions [mentioning ''hi''] = [\<lparr>mentioned = 0\<rparr>, \<lparr>mentioned = 1\<rparr>] \<and>
   2 \<notin> mentioned ` set (allMentions [mentioning ''hi'']) \<and>
   objects (compose example_platform handler_seen [mentioning ''hi''] store_named) 2 =
     store_named 2 \<and>
   objects_after (send example_platform accepting handler_seen to_ops [mentioning ''hi'']
                    store_named) 2 = \<lparr>chan_id = ''C9'', chan_name = ''''\<rparr>"
proof -
  have all: "allMentions [mentioning ''hi''] = [\<lparr>mentioned = 0\<rparr>, \<lparr>mentioned = 1\<rparr>]"
    by (simp add: allMentions_def mentionsOf_def mentioning_def)
  from composition_frame [of example_platform handler_seen "[mentioning ''hi'']" store_named
      accepting to_ops]
  show ?thesis
    by (simp add: Let_def all store_named_def)
qed

subsection \<open>C10: errors of the continuation\<close>

text \<open>
  Claim C10: every error raised inside \<^verbatim>\<open>send\<close>, those of the transport included, is
  caught and logged with its stack. In the proactive branch the source does not await the
  promise of \<^verbatim>\<open>continueConversation\<close>: when the platform rejects the continuation of two
  cards sent to the channel \<open>ops\<close> with the error \<open>E\<close>, the promise of \<^verbatim>\<open>send\<close> is
  fulfilled, the log holds no error entry, and \<open>E\<close> is a rejection that nothing handles.
  On a live turn the same call is awaited, and \<open>E\<close> is logged.
\<close>

theorem rejected_continuation_unhandled:
  "send example_platform rejecting handler_seen to_ops [adaptive ''A'', adaptive ''B''] store_named =
     \<lparr>settled = Inr (),
      log = [Log_start ''send'', Log_info SendProactiveMessage,
             Log_info (TargetChannelInfo (Some ops)), Log_info (ServiceUrl ''https://svc/a''),
             Log_end ''send''],
      calls =
        [CreateConnectorClient ''https://svc/a'',
         CreateConversation
           \<lparr>cp_isGroup = True, channelData_channel = ops,
            cp_activity =
              Some \<lparr>act_text = None, act_attachments = Some [''A''], act_entities = Some []\<rparr>\<rparr>,
         ContinueConversation
           \<lparr>ref_of =
              Inr (Some \<lparr>act_text = None, act_attachments = Some [''A''],
                          act_entities = Some []\<rparr>),
            ref_conversation =
              Some \<lparr>ca_isGroup = True, ca_id = ''T1'', conversationType = ''channel''\<rparr>,
            ref_serviceUrl = Some ''https://svc/a''\<rparr>
           (Some \<lparr>act_text = None, act_attachments = Some [''B''], act_entities = Some []\<rparr>)],
      unhandled = [''E''],
      objects_after = store_named\<rparr> \<and>
   log (send example_platform rejecting handler_seen in_turn [adaptive ''A'', adaptive ''B'']
          store_named) =
     [Log_start ''send'', Log_info SendConversationMessage, Log_error (ErrorStack ''E''),
      Log_end ''send'']"
proof -
  let ?messages = "[adaptive ''A'', adaptive ''B'']"
  let ?s = "compose example_platform handler_seen ?messages store_named :: string locals"
  have gates: "?messages \<noteq> []" "liveTurn to_ops = None" "0 < length (getServiceUrl handler_seen)"
    "findChannel handler_seen (channel to_ops) = Some ops"
    "findServiceUrl handler_seen (chan_id ops) = ''https://svc/a''"
    "''https://svc/a'' \<noteq> ''''"
    by (simp_all add: liveTurn_def to_ops_def handler_seen_def handler_of_def findChannel_def
        ops_def general_def)
  have composed: "textMessage ?s = ''''" "attachments ?s = [''A'', ''B'']" "mentions ?s = []"
    "objects ?s = store_named"
    by (simp_all add: compose_text textPart_def cardPart_def compose_objects
        allMentions_def mentionsOf_def adaptive_def example_platform_def initial_def)
  have nolog: "logPart (adaptive ''A'') = []" "logPart (adaptive ''B'') = []"
    by (simp_all add: logPart_def adaptive_def)
  have pushed: "createAndContinue rejecting ops ''https://svc/a'' (textMessage ?s)
      (attachments ?s) (mentions ?s) =
      (None,
       [CreateConnectorClient ''https://svc/a'',
        CreateConversation
          \<lparr>cp_isGroup = True, channelData_channel = ops,
           cp_activity =
             Some \<lparr>act_text = None, act_attachments = Some [''A''], act_entities = Some []\<rparr>\<rparr>,
        ContinueConversation
          \<lparr>ref_of =
             Inr (Some \<lparr>act_text = None, act_attachments = Some [''A''],
                         act_entities = Some []\<rparr>),
           ref_conversation =
             Some \<lparr>ca_isGroup = True, ca_id = ''T1'', conversationType = ''channel''\<rparr>,
           ref_serviceUrl = Some ''https://svc/a''\<rparr>
          (Some \<lparr>act_text = None, act_attachments = Some [''B''], act_entities = Some []\<rparr>)],
       [''E''])"
    by (simp add: composed createAndContinue_def rejecting_def accepting_def firstActivity_def
        restActivity_def MessageFactory_attachment_def getConversationReference_def Let_def)
  have proactive: "send example_platform rejecting handler_seen to_ops ?messages store_named =
     \<lparr>settled = Inr (),
      log = [Log_start ''send'', Log_info SendProactiveMessage,
             Log_info (TargetChannelInfo (Some ops)), Log_info (ServiceUrl ''https://svc/a''),
             Log_end ''send''],
      calls =
        [CreateConnectorClient ''https://svc/a'',
         CreateConversation
           \<lparr>cp_isGroup = True, channelData_channel = ops,
            cp_activity =
              Some \<lparr>act_text = None, act_attachments = Some [''A''], act_entities = Some []\<rparr>\<rparr>,
         ContinueConversation
           \<lparr>ref_of =
              Inr (Some \<lparr>act_text = None, act_attachments = Some [''A''],
                          act_entities = Some []\<rparr>),
            ref_conversation =
              Some \<lparr>ca_isGroup = True, ca_id = ''T1'', conversationType = ''channel''\<rparr>,
            ref_serviceUrl = Some ''https://svc/a''\<rparr>
           (Some \<lparr>act_text = None, act_attachments = Some [''B''], act_entities = Some []\<rparr>)],
      unhandled = [''E''],
      objects_after = store_named\<rparr>"
    using send_delivered [OF gates pushed] by (simp add: composed(1-4) nolog)
  have "liveTurn in_turn = Some ''T0''"
    by (simp add: liveTurn_def in_turn_def)
  then have "deliver rejecting handler_seen in_turn ?s =
      conversation rejecting ''T0''
        \<lparr>act_text = None, act_attachments = Some [''A'', ''B''], act_entities = None\<rparr>"
    by (intro deliver_conversation) (simp_all add: composed getActivity_def)
  moreover have "fst (conversation rejecting ''T0''
        \<lparr>act_text = None, act_attachments = Some [''A'', ''B''], act_entities = None\<rparr>) = Some ''E''"
    "eff_log (snd (conversation rejecting ''T0''
        \<lparr>act_text = None, act_attachments = Some [''A'', ''B''], act_entities = None\<rparr>)) =
      [Log_info SendConversationMessage]"
    by (simp_all add: conversation_def rejecting_def accepting_def Let_def)
  ultimately
  have "log (send example_platform rejecting handler_seen in_turn ?messages store_named) =
      [Log_start ''send'', Log_info SendConversationMessage, Log_error (ErrorStack ''E''),
       Log_end ''send'']"
    by (simp add: send_fields nolog)
  with proactive show ?thesis by simp
qed

end
